theory Spec2Isabelle
  imports Complex_Main
begin

section \<open>JavaScript values\<close>

text \<open>
  JavaScript numbers are modelled as exact reals: IEEE-754 rounding of intermediate
  results is outside the model. A numeric field that may be missing from a document is a
  \<open>real option\<close>; \<open>x || 0\<close> on such a field is \<open>orZero\<close>. Strings are byte
  strings (UTF-8); case mapping and white space are the ASCII ones.
\<close>

definition orZero :: "real option \<Rightarrow> real" where
  "orZero v = (case v of None \<Rightarrow> 0 | Some x \<Rightarrow> x)"

text \<open>\<open>Math.round\<close>: the nearest integer, a tie going up.\<close>

definition Math_round :: "real \<Rightarrow> real" where
  "Math_round x = of_int \<lfloor>x + 1 / 2\<rfloor>"

definition lowerChar :: "char \<Rightarrow> char" where
  "lowerChar c =
     (let n = (of_char c :: nat) in if 65 \<le> n \<and> n \<le> 90 then char_of (n + 32) else c)"

definition upperChar :: "char \<Rightarrow> char" where
  "upperChar c =
     (let n = (of_char c :: nat) in if 97 \<le> n \<and> n \<le> 122 then char_of (n - 32) else c)"

definition toLowerCase :: "string \<Rightarrow> string" where
  "toLowerCase s = map lowerChar s"

definition toUpperCase :: "string \<Rightarrow> string" where
  "toUpperCase s = map upperChar s"

section \<open>Leaderboard service (maharashtraLeaderboard)\<close>

subsection \<open>Data\<close>

text \<open>A document of the MGNREGAData collection, with the fields the service reads.\<close>

record mgnrega_row =
  state :: string
  district :: string
  year :: int
  total_persondays_generated :: "real option"
  total_expenditure :: "real option"
  average_days_per_household :: "real option"
  total_households_worked :: "real option"
  total_completed_works :: "real option"
  total_ongoing_works :: "real option"
  average_wage_per_day :: "real option"

text \<open>The accumulator stored in \<open>districtMap\<close> for one district.\<close>

record districtData =
  district :: string
  totalPersonDays :: real
  totalExpenditure :: real
  employmentProvided :: real
  householdsWorked :: real
  worksCompleted :: real
  worksInProgress :: real
  avgWageRate :: real
  monthsCount :: nat

record metrics =
  totalPersonDays :: real
  totalExpenditure :: real
  employmentProvided :: real
  householdsWorked :: real
  worksCompleted :: real
  worksInProgress :: real
  completionRate :: real
  avgWageRate :: real

record category =
  label :: string
  labelEn :: string
  color :: string
  icon :: string
  emoji :: string

record entry =
  rank :: nat
  district :: string
  score :: real
  employment :: real
  works :: real
  category :: string
  categoryColor :: string
  icon :: string
  emoji :: string
  metrics :: metrics
  rankEmoji :: "string option"

record leaderboardData =
  success :: bool
  message :: "string option"
  year :: "int option"
  totalDistricts :: "nat option"
  leaderboard :: "entry list"

subsection \<open>Score and category\<close>

text \<open>
  \<open>calculatePerformanceScore\<close>. The argument is \<open>None\<close> when \<open>districtData\<close> or its
  \<open>metrics\<close> is missing; the object passed is \<open>{ metrics: data }\<close>.
\<close>

definition calculatePerformanceScore :: "districtData option \<Rightarrow> real \<Rightarrow> real \<Rightarrow> real" where
  "calculatePerformanceScore districtData maxPersonDays maxExpenditure =
     (case districtData of
        None \<Rightarrow> 0
      | Some m \<Rightarrow>
          (let normalizedPersonDays =
                 (if maxPersonDays > 0 then districtData.totalPersonDays m / maxPersonDays else 0);
               normalizedExpenditure =
                 (if maxExpenditure > 0 then districtData.totalExpenditure m / maxExpenditure else 0);
               overallScore = (normalizedPersonDays * (6 / 10) + normalizedExpenditure * (4 / 10)) * 100
           in Math_round (overallScore * 100) / 100))"

text \<open>The display strings of the categories, as UTF-8.\<close>

definition label_excellent :: string where
  "label_excellent = [CHR 0xF0, CHR 0x9F, CHR 0x9F, CHR 0xA2, CHR '' '', CHR 0xE0, CHR 0xA4, CHR 0x89,
     CHR 0xE0, CHR 0xA4, CHR 0xA4, CHR 0xE0, CHR 0xA5, CHR 0x8D, CHR 0xE0, CHR 0xA4, CHR 0x95, CHR 0xE0,
     CHR 0xA5, CHR 0x83, CHR 0xE0, CHR 0xA4, CHR 0xB7, CHR 0xE0, CHR 0xA5, CHR 0x8D, CHR 0xE0, CHR 0xA4,
     CHR 0x9F]"

definition label_good :: string where
  "label_good = [CHR 0xF0, CHR 0x9F, CHR 0x9F, CHR 0xA1, CHR '' '', CHR 0xE0, CHR 0xA4, CHR 0x9A,
     CHR 0xE0, CHR 0xA4, CHR 0xBE, CHR 0xE0, CHR 0xA4, CHR 0x82, CHR 0xE0, CHR 0xA4, CHR 0x97, CHR 0xE0,
     CHR 0xA4, CHR 0xB2, CHR 0xE0, CHR 0xA5, CHR 0x87]"

definition label_average :: string where
  "label_average = [CHR 0xF0, CHR 0x9F, CHR 0x9F, CHR 0xA0, CHR '' '', CHR 0xE0, CHR 0xA4, CHR 0xB8,
     CHR 0xE0, CHR 0xA4, CHR 0xB0, CHR 0xE0, CHR 0xA4, CHR 0xBE, CHR 0xE0, CHR 0xA4, CHR 0xB8, CHR 0xE0,
     CHR 0xA4, CHR 0xB0, CHR 0xE0, CHR 0xA5, CHR 0x80]"

definition label_needs_improvement :: string where
  "label_needs_improvement = [CHR 0xF0, CHR 0x9F, CHR 0x94, CHR 0xB4, CHR '' '', CHR 0xE0, CHR 0xA4,
     CHR 0xB8, CHR 0xE0, CHR 0xA5, CHR 0x81, CHR 0xE0, CHR 0xA4, CHR 0xA7, CHR 0xE0, CHR 0xA4, CHR 0xBE,
     CHR 0xE0, CHR 0xA4, CHR 0xB0, CHR 0xE0, CHR 0xA4, CHR 0xA3, CHR 0xE0, CHR 0xA4, CHR 0xBE, CHR '' '',
     CHR 0xE0, CHR 0xA4, CHR 0x86, CHR 0xE0, CHR 0xA4, CHR 0xB5, CHR 0xE0, CHR 0xA4, CHR 0xB6, CHR 0xE0,
     CHR 0xA5, CHR 0x8D, CHR 0xE0, CHR 0xA4, CHR 0xAF, CHR 0xE0, CHR 0xA4, CHR 0x95]"

definition icon_green :: string where
  "icon_green = [CHR 0xF0, CHR 0x9F, CHR 0x9F, CHR 0xA2]"

definition icon_yellow :: string where
  "icon_yellow = [CHR 0xF0, CHR 0x9F, CHR 0x9F, CHR 0xA1]"

definition icon_orange :: string where
  "icon_orange = [CHR 0xF0, CHR 0x9F, CHR 0x9F, CHR 0xA0]"

definition icon_red :: string where
  "icon_red = [CHR 0xF0, CHR 0x9F, CHR 0x94, CHR 0xB4]"

definition emoji_star :: string where
  "emoji_star = [CHR 0xF0, CHR 0x9F, CHR 0x8C, CHR 0x9F]"

definition emoji_check :: string where
  "emoji_check = [CHR 0xE2, CHR 0x9C, CHR 0x85]"

definition emoji_bolt :: string where
  "emoji_bolt = [CHR 0xE2, CHR 0x9A, CHR 0xA1]"

definition emoji_warning :: string where
  "emoji_warning = [CHR 0xE2, CHR 0x9A, CHR 0xA0, CHR 0xEF, CHR 0xB8, CHR 0x8F]"

definition medal_gold :: string where
  "medal_gold = [CHR 0xF0, CHR 0x9F, CHR 0xA5, CHR 0x87]"

definition medal_silver :: string where
  "medal_silver = [CHR 0xF0, CHR 0x9F, CHR 0xA5, CHR 0x88]"

definition medal_bronze :: string where
  "medal_bronze = [CHR 0xF0, CHR 0x9F, CHR 0xA5, CHR 0x89]"

definition emoji_trophy :: string where
  "emoji_trophy = [CHR 0xF0, CHR 0x9F, CHR 0x8F, CHR 0x86]"

definition emoji_pin :: string where
  "emoji_pin = [CHR 0xF0, CHR 0x9F, CHR 0x93, CHR 0x8D]"

definition getPerformanceCategory :: "real \<Rightarrow> category" where
  "getPerformanceCategory sc =
     (if sc \<ge> 80 then
        \<lparr>label = label_excellent, labelEn = ''Excellent'', color = ''green'',
         category.icon = icon_green, category.emoji = emoji_star\<rparr>
      else if sc \<ge> 60 then
        \<lparr>label = label_good, labelEn = ''Good'', color = ''yellow'',
         category.icon = icon_yellow, category.emoji = emoji_check\<rparr>
      else if sc \<ge> 40 then
        \<lparr>label = label_average, labelEn = ''Average'', color = ''orange'',
         category.icon = icon_orange, category.emoji = emoji_bolt\<rparr>
      else
        \<lparr>label = label_needs_improvement, labelEn = ''Needs Improvement'', color = ''red'',
         category.icon = icon_red, category.emoji = emoji_warning\<rparr>)"

subsection \<open>Reading and grouping the rows\<close>

text \<open>
  The two queries. \<open>findOne({state}).sort({year: -1, month: -1})\<close> is used for its
  \<open>year\<close> only, the largest year among the Maharashtra documents; \<open>find\<close> returns the
  Maharashtra documents of that year in collection order.
\<close>

definition latestYear :: "mgnrega_row list \<Rightarrow> int option" where
  "latestYear db =
     (case filter (\<lambda>r. mgnrega_row.state r = ''Maharashtra'') db of
        [] \<Rightarrow> None
      | r # rs \<Rightarrow> Some (foldr max (map mgnrega_row.year rs) (mgnrega_row.year r)))"

definition findDistricts :: "mgnrega_row list \<Rightarrow> int \<Rightarrow> mgnrega_row list" where
  "findDistricts db y =
     filter (\<lambda>r. mgnrega_row.state r = ''Maharashtra'' \<and> mgnrega_row.year r = y) db"

definition newDistrictData :: "string \<Rightarrow> districtData" where
  "newDistrictData d =
     \<lparr>districtData.district = d, totalPersonDays = 0, totalExpenditure = 0, employmentProvided = 0,
      householdsWorked = 0, worksCompleted = 0, worksInProgress = 0, avgWageRate = 0,
      monthsCount = 0\<rparr>"

text \<open>The body of the \<open>forEach\<close> after the entry has been fetched from the map.\<close>

definition accumulate :: "mgnrega_row \<Rightarrow> districtData \<Rightarrow> districtData" where
  "accumulate r d =
     d\<lparr>districtData.totalPersonDays :=
         districtData.totalPersonDays d + orZero (total_persondays_generated r),
       districtData.totalExpenditure :=
         districtData.totalExpenditure d + orZero (total_expenditure r),
       districtData.employmentProvided :=
         districtData.employmentProvided d + orZero (average_days_per_household r),
       districtData.householdsWorked :=
         max (districtData.householdsWorked d) (orZero (total_households_worked r)),
       districtData.worksCompleted :=
         districtData.worksCompleted d + orZero (total_completed_works r),
       districtData.worksInProgress :=
         districtData.worksInProgress d + orZero (total_ongoing_works r),
       districtData.avgWageRate :=
         districtData.avgWageRate d + orZero (average_wage_per_day r),
       monthsCount := Suc (monthsCount d)\<rparr>"

text \<open>
  \<open>districtMap\<close> is a JavaScript \<open>Map\<close>: keys in insertion order, a key already present
  keeps its place. One step of the \<open>forEach\<close> over the rows:
\<close>

fun districtMap_step :: "mgnrega_row \<Rightarrow> (string \<times> districtData) list \<Rightarrow> (string \<times> districtData) list" where
  "districtMap_step r [] =
     [(mgnrega_row.district r, accumulate r (newDistrictData (mgnrega_row.district r)))]"
| "districtMap_step r ((k, d) # m) =
     (if k = mgnrega_row.district r then (k, accumulate r d) # m
      else (k, d) # districtMap_step r m)"

definition aggregateRows :: "mgnrega_row list \<Rightarrow> (string \<times> districtData) list" where
  "aggregateRows districts = foldl (\<lambda>m r. districtMap_step r m) [] districts"

definition averageWage :: "districtData \<Rightarrow> districtData" where
  "averageWage d =
     d\<lparr>districtData.avgWageRate :=
         (if monthsCount d > 0 then Math_round (districtData.avgWageRate d / real (monthsCount d))
          else 0)\<rparr>"

text \<open>\<open>Array.from(districtMap.values())\<close> after the averaging pass.\<close>

definition allData :: "mgnrega_row list \<Rightarrow> districtData list" where
  "allData districts = map (\<lambda>(k, d). averageWage d) (aggregateRows districts)"

subsection \<open>Scoring, sorting and ranking\<close>

text \<open>\<open>Math.max(...xs, 1)\<close>\<close>

definition maxFloor1 :: "real list \<Rightarrow> real" where
  "maxFloor1 xs = foldr max xs 1"

definition maxPersonDays :: "districtData list \<Rightarrow> real" where
  "maxPersonDays ds = maxFloor1 (map districtData.totalPersonDays ds)"

definition maxExpenditure :: "districtData list \<Rightarrow> real" where
  "maxExpenditure ds = maxFloor1 (map districtData.totalExpenditure ds)"

definition completionRateOf :: "districtData \<Rightarrow> real" where
  "completionRateOf d =
     (if districtData.worksCompleted d + districtData.worksInProgress d > 0
      then Math_round
             (districtData.worksCompleted d
                / (districtData.worksCompleted d + districtData.worksInProgress d) * 100)
      else 0)"

definition makeEntry :: "real \<Rightarrow> real \<Rightarrow> districtData \<Rightarrow> entry" where
  "makeEntry maxPD maxExp d =
     (let score = calculatePerformanceScore (Some d) maxPD maxExp;
          cat = getPerformanceCategory score
      in \<lparr>rank = 0,
          entry.district = districtData.district d,
          score = score,
          employment = districtData.totalPersonDays d,
          works = districtData.worksCompleted d,
          category = label cat,
          categoryColor = color cat,
          entry.icon = category.icon cat,
          entry.emoji = category.emoji cat,
          metrics =
            \<lparr>metrics.totalPersonDays = districtData.totalPersonDays d,
             metrics.totalExpenditure = districtData.totalExpenditure d,
             metrics.employmentProvided = districtData.employmentProvided d,
             metrics.householdsWorked = districtData.householdsWorked d,
             metrics.worksCompleted = districtData.worksCompleted d,
             metrics.worksInProgress = districtData.worksInProgress d,
             completionRate = completionRateOf d,
             metrics.avgWageRate = districtData.avgWageRate d\<rparr>,
          rankEmoji = None\<rparr>)"

definition scoreAll :: "districtData list \<Rightarrow> entry list" where
  "scoreAll ds = map (makeEntry (maxPersonDays ds) (maxExpenditure ds)) ds"

text \<open>
  \<open>leaderboard.sort((a, b) => b.score - a.score)\<close>: \<open>Array.prototype.sort\<close> is stable, and
  the comparator orders by descending score, that is by ascending \<open>- score\<close>.
\<close>

definition sortByScore :: "entry list \<Rightarrow> entry list" where
  "sortByScore es = sort_key (\<lambda>e. - score e) es"

definition rankEmojiFor :: "nat \<Rightarrow> string" where
  "rankEmojiFor r =
     (if r = 1 then medal_gold
      else if r = 2 then medal_silver
      else if r = 3 then medal_bronze
      else if r \<le> 10 then emoji_trophy
      else emoji_pin)"

text \<open>The \<open>forEach((item, index) => ...)\<close> that writes the ranks.\<close>

fun addRanks :: "nat \<Rightarrow> entry list \<Rightarrow> entry list" where
  "addRanks index [] = []"
| "addRanks index (item # items) =
     item\<lparr>rank := index + 1, rankEmoji := Some (rankEmojiFor (index + 1))\<rparr>
       # addRanks (Suc index) items"

definition buildLeaderboard :: "districtData list \<Rightarrow> entry list" where
  "buildLeaderboard ds = addRanks 0 (sortByScore (scoreAll ds))"

definition getMaharashtraLeaderboard :: "mgnrega_row list \<Rightarrow> leaderboardData" where
  "getMaharashtraLeaderboard db =
     (case latestYear db of
        None \<Rightarrow>
          \<lparr>success = False, message = Some ''No data found for Maharashtra'',
           year = None, totalDistricts = None, leaderboard = []\<rparr>
      | Some y \<Rightarrow>
          (let lb = buildLeaderboard (allData (findDistricts db y))
           in \<lparr>success = True, message = None, year = Some y,
               totalDistricts = Some (length lb), leaderboard = lb\<rparr>))"

text \<open>\<open>getDistrictsByCategory\<close>\<close>

definition getDistrictsByCategory :: "mgnrega_row list \<Rightarrow> string \<Rightarrow> entry list" where
  "getDistrictsByCategory db cat =
     (let leaderboardData = getMaharashtraLeaderboard db
      in if \<not> success leaderboardData then []
         else filter (\<lambda>d. toLowerCase (category d) = toLowerCase cat) (leaderboard leaderboardData))"

section \<open>Multi-API geolocation service (multiApiGeolocation)\<close>

subsection \<open>Strings\<close>

text \<open>
  A value that may be \<open>null\<close> or \<open>undefined\<close> is an option. \<open>truthy\<close> is the test
  JavaScript applies to it in a condition: a string is truthy when it is not empty.
  \<open>a || b\<close> is \<open>orElse a b\<close>.
\<close>

definition truthy :: "string option \<Rightarrow> bool" where
  "truthy v = (case v of None \<Rightarrow> False | Some s \<Rightarrow> s \<noteq> [])"

definition orElse :: "string option \<Rightarrow> string option \<Rightarrow> string option" where
  "orElse a b = (if truthy a then a else b)"

text \<open>What a template literal prints for a value that may be \<open>null\<close>.\<close>

definition template :: "string option \<Rightarrow> string" where
  "template v = (case v of None \<Rightarrow> ''null'' | Some s \<Rightarrow> s)"

definition isSpace :: "char \<Rightarrow> bool" where
  "isSpace c = (let n = (of_char c :: nat) in (9 \<le> n \<and> n \<le> 13) \<or> n = 32)"

definition trim :: "string \<Rightarrow> string" where
  "trim s = rev (dropWhile isSpace (rev (dropWhile isSpace s)))"

text \<open>
  \<open>s.replace(/\s+SUFFIX$/i, "")\<close>: when the string ends in the suffix and at least one
  white-space character stands before it, the suffix and the whole run of white space before
  it are removed; otherwise the string is unchanged.
\<close>

definition stripSuffix :: "string \<Rightarrow> string \<Rightarrow> string" where
  "stripSuffix suffix s =
     (let r = rev s in
      if toUpperCase (take (length suffix) r) = rev suffix then
        (case drop (length suffix) r of
           [] \<Rightarrow> s
         | c # rest \<Rightarrow> if isSpace c then rev (dropWhile isSpace rest) else s)
      else s)"

subsection \<open>District names\<close>

definition MAHARASHTRA_DISTRICT_MAP :: "(string \<times> string) list" where
  "MAHARASHTRA_DISTRICT_MAP =
     [(''AURANGABAD'', ''CHATRAPATI SAMBHAJI NAGAR''),
      (''OSMANABAD'', ''DHARASHIV''),
      (''AHMADNAGAR'', ''AHMEDNAGAR''),
      (''AHMEDNAGAR'', ''AHMEDNAGAR''),
      (''BULDANA'', ''BULDHANA''),
      (''GONDIYA'', ''GONDIA''),
      (''CHATRAPATI SAMBHAJINAGAR'', ''CHATRAPATI SAMBHAJI NAGAR''),
      (''CHHATRAPATI SAMBHAJI NAGAR'', ''CHATRAPATI SAMBHAJI NAGAR''),
      (''SAMBHAJI NAGAR'', ''CHATRAPATI SAMBHAJI NAGAR''),
      (''KARVIR'', ''KOLHAPUR''),
      (''ROHA TALUKA'', ''RAIGAD''),
      (''ROHA'', ''RAIGAD''),
      (''NAGPUR URBAN TALUKA'', ''NAGPUR''),
      (''NAGPUR URBAN'', ''NAGPUR''),
      (''NANDGAON-KHANDESHWAR'', ''AKOLA''),
      (''AKOLA TALUKA'', ''AKOLA''),
      (''PUNE CITY TALUKA'', ''PUNE''),
      (''HAVELI TALUKA'', ''PUNE''),
      (''MUMBAI CITY TALUKA'', ''MUMBAI SUBURBAN''),
      (''MUMBAI SUBURBAN TALUKA'', ''MUMBAI SUBURBAN''),
      (''MUMBAI'', ''MUMBAI SUBURBAN''),
      (''MUMBAI CITY'', ''MUMBAI SUBURBAN''),
      (''GREATER MUMBAI'', ''MUMBAI SUBURBAN''),
      (''THANE'', ''THANE''),
      (''PUNE'', ''PUNE''),
      (''NAGPUR'', ''NAGPUR''),
      (''NASHIK'', ''NASHIK''),
      (''AKOLA'', ''AKOLA''),
      (''AMRAVATI'', ''AMRAVATI''),
      (''SOLAPUR'', ''SOLAPUR''),
      (''KOLHAPUR'', ''KOLHAPUR''),
      (''RAIGAD'', ''RAIGAD''),
      (''RATNAGIRI'', ''RATNAGIRI''),
      (''SINDHUDURG'', ''SINDHUDURG'')]"

text \<open>The four \<open>replace\<close> calls, in the order of the source.\<close>

definition stripUnits :: "string \<Rightarrow> string" where
  "stripUnits s =
     stripSuffix ''TEHSIL'' (stripSuffix ''TALUKA'' (stripSuffix ''TALUK'' (stripSuffix ''DISTRICT'' s)))"

text \<open>\<open>MAHARASHTRA_DISTRICT_MAP[normalized] || normalized\<close>\<close>

definition lookupDistrict :: "string \<Rightarrow> string" where
  "lookupDistrict normalized =
     (case map_of MAHARASHTRA_DISTRICT_MAP normalized of
        None \<Rightarrow> normalized
      | Some v \<Rightarrow> if v \<noteq> [] then v else normalized)"

definition normalizeDistrictName :: "string option \<Rightarrow> string option" where
  "normalizeDistrictName name =
     (case name of
        None \<Rightarrow> None
      | Some s \<Rightarrow>
          if s = [] then None
          else Some (lookupDistrict (stripUnits (toUpperCase (trim s)))))"

subsection \<open>Errors, results and the network\<close>

text \<open>
  A thrown value: an \<open>Error\<close> built by the service or by the HTTP client, or the
  \<open>TypeError\<close> of a property read on \<open>null\<close> or \<open>undefined\<close>; each with its message.
\<close>

datatype exn = Error string | TypeError string

fun message_of :: "exn \<Rightarrow> string" where
  "message_of (Error m) = m"
| "message_of (TypeError m) = m"

text \<open>The outcome of \<open>axios.get\<close>: it rejects (time-out, no 2xx status), or it resolves
  with \<open>response.data\<close>, which may be missing.\<close>

datatype 'a response = Rejected string | Resolved "'a option"

datatype jsval = Str string | Num real

datatype provider = Google | MapmyIndia | Geoapify | LocationIQ

record address_component =
  long_name :: string
  types :: "string list"

record google_result =
  address_components :: "address_component list"
  formatted_address :: "string option"
  location_type :: "string option"

record google_data =
  status :: "string option"
  results :: "google_result list option"

record mapmy_result =
  district :: "string option"
  subDistrict :: "string option"
  state :: "string option"
  city :: "string option"
  locality :: "string option"
  formatted_address :: "string option"
  accuracy :: "jsval option"

record mapmy_data =
  responseCode :: "int option"
  results :: "mapmy_result list option"

record geoapify_result =
  county :: "string option"
  state_district :: "string option"
  district :: "string option"
  city :: "string option"
  state :: "string option"
  suburb :: "string option"
  quarter :: "string option"
  town :: "string option"
  village :: "string option"
  country :: "string option"
  formatted :: "string option"
  confidence :: "real option"

record geoapify_data =
  results :: "geoapify_result list option"

record liq_address =
  state_district :: "string option"
  county :: "string option"
  state :: "string option"
  city :: "string option"
  region :: "string option"
  district :: "string option"
  town :: "string option"
  village :: "string option"
  country :: "string option"

record liq_data =
  address :: "liq_address option"
  display_name :: "string option"
  importance :: "real option"

datatype raw =
    RawGoogle google_result
  | RawMapmy mapmy_result
  | RawGeoapify geoapify_result
  | RawLocationIQ liq_address

record location =
  state :: "string option"
  district :: "string option"
  city :: "string option"
  country :: "string option"
  formatted :: "string option"
  coordinates :: "real \<times> real"
  accuracy :: jsval
  source :: string
  raw :: raw

text \<open>
  The process environment and the network: the four keys of \<open>process.env\<close> and, for each
  provider, what its endpoint answers to a request for a coordinate.
\<close>

record env =
  GOOGLE_API_KEY :: "string option"
  MAPMYINDIA_API_KEY :: "string option"
  GEOAPIFY_API_KEY :: "string option"
  LOCATIONIQ_API_KEY :: "string option"
  google_get :: "real \<Rightarrow> real \<Rightarrow> google_data response"
  mapmyindia_get :: "real \<Rightarrow> real \<Rightarrow> mapmy_data response"
  geoapify_get :: "real \<Rightarrow> real \<Rightarrow> geoapify_data response"
  locationiq_get :: "real \<Rightarrow> real \<Rightarrow> liq_data response"

text \<open>\<open>KEY && KEY !== 'YOUR_..._API_KEY_HERE'\<close>\<close>

definition keyConfigured :: "string option \<Rightarrow> string \<Rightarrow> bool" where
  "keyConfigured key placeholder = (truthy key \<and> key \<noteq> Some placeholder)"

text \<open>The decimal text a template literal prints for an integer.\<close>

definition digitChar :: "nat \<Rightarrow> char" where
  "digitChar d = char_of (48 + d)"

function decimal :: "nat \<Rightarrow> string" where
  "decimal n = (if n < 10 then [digitChar n] else decimal (n div 10) @ [digitChar (n mod 10)])"
  by pat_completeness auto
termination
  by (relation "measure (\<lambda>n. n)") auto

declare decimal.simps [simp del]

definition string_of_int :: "int \<Rightarrow> string" where
  "string_of_int i = (if i < 0 then CHR ''-'' # decimal (nat (- i)) else decimal (nat i))"

definition template_int :: "int option \<Rightarrow> string" where
  "template_int v = (case v of None \<Rightarrow> ''undefined'' | Some i \<Rightarrow> string_of_int i)"

text \<open>\<open>a || 'default'\<close> for a string, and the truthiness of a string or number.\<close>

definition orDefault :: "string option \<Rightarrow> string \<Rightarrow> string" where
  "orDefault a b = (case a of None \<Rightarrow> b | Some s \<Rightarrow> if s \<noteq> [] then s else b)"

definition numOrDefault :: "real option \<Rightarrow> real \<Rightarrow> real" where
  "numOrDefault a b = (case a of None \<Rightarrow> b | Some x \<Rightarrow> if x \<noteq> 0 then x else b)"

fun jsTruthy :: "jsval \<Rightarrow> bool" where
  "jsTruthy (Str s) = (s \<noteq> [])"
| "jsTruthy (Num x) = (x \<noteq> 0)"

text \<open>The message of the engine's \<open>TypeError\<close> for a property read on a missing object.\<close>

definition cannotRead :: "string \<Rightarrow> string" where
  "cannotRead prop =
     ''Cannot read properties of undefined (reading '' @ [CHR 0x27] @ prop @ [CHR 0x27] @ '')''"

subsection \<open>Google\<close>

type_synonym scan = "string option \<times> string option \<times> string option \<times> string option"

text \<open>The body of the inner loop over \<open>address_components\<close>; the tuple is
  \<open>(state, district, city, country)\<close>.\<close>

definition scanComponent :: "address_component \<Rightarrow> scan \<Rightarrow> scan" where
  "scanComponent component acc =
     (case acc of (state', district', city', country') \<Rightarrow>
        (let state1 = (if ''administrative_area_level_1'' \<in> set (types component) \<and> \<not> truthy state'
                       then Some (long_name component) else state');
             district1 = (if ''administrative_area_level_3'' \<in> set (types component) \<and> \<not> truthy district'
                          then Some (long_name component) else district');
             district2 = (if ''administrative_area_level_2'' \<in> set (types component) \<and> \<not> truthy district1
                          then Some (long_name component) else district1);
             city1 = (if ''locality'' \<in> set (types component) \<and> \<not> truthy city'
                      then Some (long_name component) else city');
             country1 = (if ''country'' \<in> set (types component) \<and> \<not> truthy country'
                         then Some (long_name component) else country')
         in (state1, district2, city1, country1)))"

text \<open>The outer loop over \<open>data.results\<close>, with its \<open>break\<close>.\<close>

fun scanResults :: "google_result list \<Rightarrow> scan \<Rightarrow> scan" where
  "scanResults [] acc = acc"
| "scanResults (result # rest) acc =
     (let acc' = foldl (\<lambda>a component. scanComponent component a) acc (address_components result)
      in if truthy (fst acc') \<and> truthy (fst (snd acc')) then acc' else scanResults rest acc')"

definition googleStatusError :: "google_data option \<Rightarrow> exn" where
  "googleStatusError data =
     Error (''Google API returned status: ''
            @ orDefault (case data of None \<Rightarrow> None | Some d \<Rightarrow> status d) ''UNKNOWN'')"

definition googleLocation :: "real \<Rightarrow> real \<Rightarrow> google_data option \<Rightarrow> exn + location" where
  "googleLocation lat lon data =
     (case data of
        None \<Rightarrow> Inl (googleStatusError data)
      | Some d \<Rightarrow>
          (case google_data.results d of
             None \<Rightarrow> Inl (googleStatusError data)
           | Some [] \<Rightarrow> Inl (googleStatusError data)
           | Some (first # rest) \<Rightarrow>
               if status d \<noteq> Some ''OK'' then Inl (googleStatusError data)
               else
                 (case scanResults (first # rest) (None, None, None, None) of
                    (state', district', city', country') \<Rightarrow>
                      (let normalizedDistrict = normalizeDistrictName district' in
                       if \<not> truthy state' \<or> \<not> truthy normalizedDistrict
                       then Inl (Error ''Could not extract state or district from Google response'')
                       else Inr \<lparr>location.state = state',
                                 location.district = normalizedDistrict,
                                 location.city = orElse city' normalizedDistrict,
                                 location.country = orElse country' (Some ''India''),
                                 location.formatted = google_result.formatted_address first,
                                 coordinates = (lat, lon),
                                 location.accuracy = Str (orDefault (location_type first) ''APPROXIMATE''),
                                 source = ''Google'',
                                 raw = RawGoogle first\<rparr>))))"

text \<open>
  Each adapter takes the list of HTTP requests issued so far and returns it extended by its
  own request, if it gets as far as issuing one.
\<close>

definition reverseGeocodeGoogle ::
  "env \<Rightarrow> real \<Rightarrow> real \<Rightarrow> provider list \<Rightarrow> (exn + location) \<times> provider list" where
  "reverseGeocodeGoogle e lat lon reqs =
     (if \<not> truthy (GOOGLE_API_KEY e) \<or> GOOGLE_API_KEY e = Some ''YOUR_GOOGLE_API_KEY_HERE''
      then (Inl (Error ''Google Geocoding API key not configured''), reqs)
      else (case google_get e lat lon of
              Rejected m \<Rightarrow> (Inl (Error m), reqs @ [Google])
            | Resolved data \<Rightarrow> (googleLocation lat lon data, reqs @ [Google])))"

subsection \<open>MapmyIndia\<close>

definition mapmyDistrict :: "mapmy_result \<Rightarrow> string option" where
  "mapmyDistrict res = orElse (orElse (mapmy_result.district res) (subDistrict res)) None"

definition mapmyLocation :: "real \<Rightarrow> real \<Rightarrow> mapmy_data option \<Rightarrow> exn + location" where
  "mapmyLocation lat lon data =
     (case data of
        None \<Rightarrow> Inl (TypeError (cannotRead ''responseCode''))
      | Some d \<Rightarrow>
          if responseCode d \<noteq> Some 200
          then Inl (Error (''MapmyIndia API error: '' @ template_int (responseCode d)))
          else
            (case mapmy_data.results d of
               None \<Rightarrow> Inl (TypeError (cannotRead ''0''))
             | Some [] \<Rightarrow> Inl (TypeError (cannotRead ''district''))
             | Some (res # rest) \<Rightarrow>
                 (let district' = mapmyDistrict res;
                      state' = orElse (mapmy_result.state res) None;
                      city' = orElse (orElse (mapmy_result.city res) (locality res)) None;
                      normalizedDistrict =
                        (if state' = Some ''Maharashtra'' \<and> truthy district'
                         then normalizeDistrictName district' else district')
                  in Inr \<lparr>location.state = state',
                           location.district = normalizedDistrict,
                           location.city = city',
                           location.country = Some ''India'',
                           location.formatted =
                             Some (orDefault (mapmy_result.formatted_address res)
                                     (template city' @ '', '' @ template district' @ '', '' @ template state')),
                           coordinates = (lat, lon),
                           location.accuracy =
                             (case mapmy_result.accuracy res of
                                None \<Rightarrow> Str ''high''
                              | Some a \<Rightarrow> if jsTruthy a then a else Str ''high''),
                           source = ''MapmyIndia'',
                           raw = RawMapmy res\<rparr>)))"

definition reverseGeocodeMapMyIndia ::
  "env \<Rightarrow> real \<Rightarrow> real \<Rightarrow> provider list \<Rightarrow> (exn + location) \<times> provider list" where
  "reverseGeocodeMapMyIndia e lat lon reqs =
     (if \<not> truthy (MAPMYINDIA_API_KEY e) \<or> MAPMYINDIA_API_KEY e = Some ''YOUR_MAPMYINDIA_API_KEY_HERE''
      then (Inl (Error ''MapmyIndia API key not configured''), reqs)
      else (case mapmyindia_get e lat lon of
              Rejected m \<Rightarrow> (Inl (Error m), reqs @ [MapmyIndia])
            | Resolved data \<Rightarrow> (mapmyLocation lat lon data, reqs @ [MapmyIndia])))"

subsection \<open>Geoapify\<close>

definition geoapifyDistrict :: "geoapify_result \<Rightarrow> string option" where
  "geoapifyDistrict res =
     orElse (orElse (orElse (geoapify_result.county res) (geoapify_result.state_district res)) (geoapify_result.city res)) None"

definition geoapifyLocation :: "real \<Rightarrow> real \<Rightarrow> geoapify_data option \<Rightarrow> exn + location" where
  "geoapifyLocation lat lon data =
     (case data of
        None \<Rightarrow> Inl (Error ''No results from Geoapify'')
      | Some d \<Rightarrow>
          (case geoapify_data.results d of
             None \<Rightarrow> Inl (Error ''No results from Geoapify'')
           | Some [] \<Rightarrow> Inl (Error ''No results from Geoapify'')
           | Some (res # rest) \<Rightarrow>
               (let district' = geoapifyDistrict res;
                    state' = orElse (geoapify_result.state res) None;
                    city' = orElse (orElse (orElse (geoapify_result.city res) (geoapify_result.town res))
                                      (geoapify_result.village res)) None;
                    normalizedDistrict =
                      (if state' = Some ''Maharashtra'' \<and> truthy district'
                       then normalizeDistrictName district' else district')
                in Inr \<lparr>location.state = state',
                         location.district = normalizedDistrict,
                         location.city = city',
                         location.country = Some (orDefault (geoapify_result.country res) ''India''),
                         location.formatted =
                           Some (orDefault (geoapify_result.formatted res)
                                   (template city' @ '', '' @ template district' @ '', '' @ template state')),
                         coordinates = (lat, lon),
                         location.accuracy = Num (numOrDefault (confidence res) (8 / 10)),
                         source = ''Geoapify'',
                         raw = RawGeoapify res\<rparr>)))"

definition reverseGeocodeGeoapify ::
  "env \<Rightarrow> real \<Rightarrow> real \<Rightarrow> provider list \<Rightarrow> (exn + location) \<times> provider list" where
  "reverseGeocodeGeoapify e lat lon reqs =
     (if \<not> truthy (GEOAPIFY_API_KEY e) \<or> GEOAPIFY_API_KEY e = Some ''YOUR_GEOAPIFY_API_KEY_HERE''
      then (Inl (Error ''Geoapify API key not configured''), reqs)
      else (case geoapify_get e lat lon of
              Rejected m \<Rightarrow> (Inl (Error m), reqs @ [Geoapify])
            | Resolved data \<Rightarrow> (geoapifyLocation lat lon data, reqs @ [Geoapify])))"

subsection \<open>LocationIQ\<close>

definition emptyAddress :: liq_address where
  "emptyAddress =
     \<lparr>liq_address.state_district = None, liq_address.county = None, liq_address.state = None,
      liq_address.city = None, region = None, liq_address.district = None,
      liq_address.town = None, liq_address.village = None, liq_address.country = None\<rparr>"

definition locationiqState :: "liq_address \<Rightarrow> string option" where
  "locationiqState a =
     orElse (orElse (orElse (liq_address.state a) (liq_address.state_district a)) (region a)) None"

definition locationiqDistrict :: "liq_address \<Rightarrow> string option" where
  "locationiqDistrict a =
     (if truthy (liq_address.state_district a) \<and> liq_address.state_district a \<noteq> locationiqState a
      then liq_address.state_district a
      else if truthy (liq_address.city a) \<and> locationiqState a = Some ''Maharashtra''
      then liq_address.city a
      else if truthy (liq_address.county a) then liq_address.county a
      else if truthy (liq_address.district a) then liq_address.district a
      else None)"

definition locationiqLocation :: "real \<Rightarrow> real \<Rightarrow> liq_data option \<Rightarrow> exn + location" where
  "locationiqLocation lat lon data =
     (case data of
        None \<Rightarrow> Inl (TypeError (cannotRead ''address''))
      | Some d \<Rightarrow>
          (let a = (case address d of None \<Rightarrow> emptyAddress | Some x \<Rightarrow> x);
               state' = locationiqState a;
               district' = locationiqDistrict a;
               city' = orElse (orElse (orElse (liq_address.city a) (liq_address.town a))
                                 (liq_address.village a)) None;
               normalizedDistrict =
                 (if state' = Some ''Maharashtra'' \<and> truthy district'
                  then normalizeDistrictName district' else district')
           in Inr \<lparr>location.state = state',
                    location.district = normalizedDistrict,
                    location.city = city',
                    location.country = Some (orDefault (liq_address.country a) ''India''),
                    location.formatted = display_name d,
                    coordinates = (lat, lon),
                    location.accuracy = Num (numOrDefault (importance d) (5 / 10)),
                    source = ''LocationIQ'',
                    raw = RawLocationIQ a\<rparr>))"

definition reverseGeocodeLocationIQ ::
  "env \<Rightarrow> real \<Rightarrow> real \<Rightarrow> provider list \<Rightarrow> (exn + location) \<times> provider list" where
  "reverseGeocodeLocationIQ e lat lon reqs =
     (if \<not> truthy (LOCATIONIQ_API_KEY e) \<or> LOCATIONIQ_API_KEY e = Some ''YOUR_LOCATIONIQ_API_KEY_HERE''
      then (Inl (Error ''LocationIQ API key not configured''), reqs)
      else (case locationiq_get e lat lon of
              Rejected m \<Rightarrow> (Inl (Error m), reqs @ [LocationIQ])
            | Resolved data \<Rightarrow> (locationiqLocation lat lon data, reqs @ [LocationIQ])))"

subsection \<open>The fallback chain\<close>

record api_error =
  api :: string
  error :: string

text \<open>
  What \<open>getLiveDistrict\<close> leaves behind: the value returned or the error thrown, the local
  array \<open>errors\<close> (written to the console when every provider has failed), and the HTTP
  requests issued, in order.
\<close>

record resolution =
  returned :: "exn + location"
  errors :: "api_error list"
  requests :: "provider list"

text \<open>
  One block of the chain: \<open>if (KEY && KEY !== placeholder) { try { ... } catch { ... } }\<close>.
  The state is the \<open>errors\<close> array and the requests issued so far; the result is the
  location returned from the block, if it returns one.
\<close>

definition attempt ::
  "bool \<Rightarrow> (provider list \<Rightarrow> (exn + location) \<times> provider list) \<Rightarrow> string
     \<Rightarrow> api_error list \<times> provider list \<Rightarrow> location option \<times> api_error list \<times> provider list" where
  "attempt keyOk adapter name st =
     (case st of (errs, reqs) \<Rightarrow>
        if keyOk then
          (case adapter reqs of
             (Inr result, reqs') \<Rightarrow>
               if truthy (location.district result) \<and> truthy (location.state result)
               then (Some result, errs, reqs')
               else (None, errs, reqs')
           | (Inl err, reqs') \<Rightarrow> (None, errs @ [\<lparr>api = name, error = message_of err\<rparr>], reqs'))
        else (None, errs, reqs))"

definition getLiveDistrict :: "env \<Rightarrow> real \<Rightarrow> real \<Rightarrow> resolution" where
  "getLiveDistrict e lat lon =
     (case attempt (keyConfigured (GOOGLE_API_KEY e) ''YOUR_GOOGLE_API_KEY_HERE'')
             (reverseGeocodeGoogle e lat lon) ''Google'' ([], []) of
        (Some result, errs, reqs) \<Rightarrow> \<lparr>returned = Inr result, errors = errs, requests = reqs\<rparr>
      | (None, st1) \<Rightarrow>
     (case attempt (keyConfigured (MAPMYINDIA_API_KEY e) ''YOUR_MAPMYINDIA_API_KEY_HERE'')
             (reverseGeocodeMapMyIndia e lat lon) ''MapmyIndia'' st1 of
        (Some result, errs, reqs) \<Rightarrow> \<lparr>returned = Inr result, errors = errs, requests = reqs\<rparr>
      | (None, st2) \<Rightarrow>
     (case attempt (keyConfigured (GEOAPIFY_API_KEY e) ''YOUR_GEOAPIFY_API_KEY_HERE'')
             (reverseGeocodeGeoapify e lat lon) ''Geoapify'' st2 of
        (Some result, errs, reqs) \<Rightarrow> \<lparr>returned = Inr result, errors = errs, requests = reqs\<rparr>
      | (None, st3) \<Rightarrow>
     (case attempt (keyConfigured (LOCATIONIQ_API_KEY e) ''YOUR_LOCATIONIQ_API_KEY_HERE'')
             (reverseGeocodeLocationIQ e lat lon) ''LocationIQ'' st3 of
        (Some result, errs, reqs) \<Rightarrow> \<lparr>returned = Inr result, errors = errs, requests = reqs\<rparr>
      | (None, errs, reqs) \<Rightarrow>
          \<lparr>returned = Inl (Error ''District detection unavailable. All geocoding APIs failed.''),
           errors = errs, requests = reqs\<rparr>))))"

text \<open>\<open>isInMaharashtra\<close>\<close>

definition isInMaharashtra :: "location option \<Rightarrow> bool" where
  "isInMaharashtra loc = (case loc of None \<Rightarrow> False | Some l \<Rightarrow> location.state l = Some ''Maharashtra'')"

section \<open>Definitions used to state the properties\<close>

subsection \<open>Leaderboard\<close>




text \<open>
  The average wage rate in the words of the specification: the mean over the rows of the
  district that report a rate other than zero, and 0 when there is no such row.
\<close>

definition spec_avgWageRate :: "mgnrega_row list \<Rightarrow> string \<Rightarrow> real" where
  "spec_avgWageRate rows k =
     (let valid = filter (\<lambda>w. w \<noteq> 0)
                    (map (\<lambda>r. orZero (average_wage_per_day r))
                         (filter (\<lambda>r. mgnrega_row.district r = k) rows))
      in if valid = [] then 0 else sum_list valid / real (length valid))"

text \<open>What the \<open>forEach\<close> over the rows accumulates for the district \<open>k\<close>.\<close>

definition groupFold :: "string \<Rightarrow> mgnrega_row list \<Rightarrow> districtData" where
  "groupFold k rows =
     foldl (\<lambda>d r. accumulate r d) (newDistrictData k) (filter (\<lambda>r. mgnrega_row.district r = k) rows)"

subsection \<open>Geolocation\<close>

text \<open>Some of the four \<open>replace\<close> calls of \<open>normalizeDistrictName\<close> would change the string.\<close>

definition endsWithUnit :: "string \<Rightarrow> bool" where
  "endsWithUnit s =
     list_ex (\<lambda>suffix. stripSuffix suffix s \<noteq> s) [''DISTRICT'', ''TALUK'', ''TALUKA'', ''TEHSIL'']"

text \<open>
  The chain seen provider by provider: whether the key of a provider is configured, what its
  adapter returns, whether that is a location with a state and a district (the test
  \<open>result.district && result.state\<close>), the place of the provider in the chain, and the
  entry of \<open>errors\<close> it gives rise to.
\<close>

definition isConfigured :: "env \<Rightarrow> provider \<Rightarrow> bool" where
  "isConfigured e p =
     (case p of
        Google \<Rightarrow> keyConfigured (GOOGLE_API_KEY e) ''YOUR_GOOGLE_API_KEY_HERE''
      | MapmyIndia \<Rightarrow> keyConfigured (MAPMYINDIA_API_KEY e) ''YOUR_MAPMYINDIA_API_KEY_HERE''
      | Geoapify \<Rightarrow> keyConfigured (GEOAPIFY_API_KEY e) ''YOUR_GEOAPIFY_API_KEY_HERE''
      | LocationIQ \<Rightarrow> keyConfigured (LOCATIONIQ_API_KEY e) ''YOUR_LOCATIONIQ_API_KEY_HERE'')"

definition adapterResult :: "env \<Rightarrow> real \<Rightarrow> real \<Rightarrow> provider \<Rightarrow> exn + location" where
  "adapterResult e lat lon p =
     (case p of
        Google \<Rightarrow> fst (reverseGeocodeGoogle e lat lon [])
      | MapmyIndia \<Rightarrow> fst (reverseGeocodeMapMyIndia e lat lon [])
      | Geoapify \<Rightarrow> fst (reverseGeocodeGeoapify e lat lon [])
      | LocationIQ \<Rightarrow> fst (reverseGeocodeLocationIQ e lat lon []))"

definition sufficient :: "exn + location \<Rightarrow> bool" where
  "sufficient r =
     (case r of Inl err \<Rightarrow> False
      | Inr loc \<Rightarrow> truthy (location.district loc) \<and> truthy (location.state loc))"

fun priority :: "provider \<Rightarrow> nat" where
  "priority Google = 1"
| "priority MapmyIndia = 2"
| "priority Geoapify = 3"
| "priority LocationIQ = 4"

fun providerName :: "provider \<Rightarrow> string" where
  "providerName Google = ''Google''"
| "providerName MapmyIndia = ''MapmyIndia''"
| "providerName Geoapify = ''Geoapify''"
| "providerName LocationIQ = ''LocationIQ''"

definition chain :: "provider list" where
  "chain = [Google, MapmyIndia, Geoapify, LocationIQ]"

definition failureOf :: "env \<Rightarrow> real \<Rightarrow> real \<Rightarrow> provider \<Rightarrow> api_error list" where
  "failureOf e lat lon p =
     (case adapterResult e lat lon p of
        Inl err \<Rightarrow> [\<lparr>api = providerName p, error = message_of err\<rparr>]
      | Inr loc \<Rightarrow> [])"

text \<open>One block of the chain, written with the provider's own result.\<close>

definition block :: "env \<Rightarrow> real \<Rightarrow> real \<Rightarrow> provider \<Rightarrow> api_error list \<times> provider list
    \<Rightarrow> location option \<times> api_error list \<times> provider list" where
  "block e lat lon p st =
     (if isConfigured e p then
        (case adapterResult e lat lon p of
           Inr loc \<Rightarrow> if sufficient (Inr loc) then (Some loc, fst st, snd st @ [p]) else (None, fst st, snd st @ [p])
         | Inl err \<Rightarrow> (None, fst st @ failureOf e lat lon p, snd st @ [p]))
      else (None, fst st, snd st))"

text \<open>The state and the district a provider reads from its response, before normalisation.\<close>

definition extraction :: "env \<Rightarrow> real \<Rightarrow> real \<Rightarrow> provider \<Rightarrow> (string option \<times> string option) option" where
  "extraction e lat lon p =
     (case p of
        Google \<Rightarrow>
          (case google_get e lat lon of
             Resolved (Some d) \<Rightarrow>
               (case google_data.results d of
                  Some (first # rest) \<Rightarrow>
                    (case scanResults (first # rest) (None, None, None, None) of
                       (state', district', city', country') \<Rightarrow> Some (state', district'))
                | _ \<Rightarrow> None)
           | _ \<Rightarrow> None)
      | MapmyIndia \<Rightarrow>
          (case mapmyindia_get e lat lon of
             Resolved (Some d) \<Rightarrow>
               (case mapmy_data.results d of
                  Some (res # rest) \<Rightarrow> Some (orElse (mapmy_result.state res) None, mapmyDistrict res)
                | _ \<Rightarrow> None)
           | _ \<Rightarrow> None)
      | Geoapify \<Rightarrow>
          (case geoapify_get e lat lon of
             Resolved (Some d) \<Rightarrow>
               (case geoapify_data.results d of
                  Some (res # rest) \<Rightarrow> Some (orElse (geoapify_result.state res) None, geoapifyDistrict res)
                | _ \<Rightarrow> None)
           | _ \<Rightarrow> None)
      | LocationIQ \<Rightarrow>
          (case locationiq_get e lat lon of
             Resolved (Some d) \<Rightarrow>
               (case address d of
                  None \<Rightarrow> Some (locationiqState emptyAddress, locationiqDistrict emptyAddress)
                | Some a \<Rightarrow> Some (locationiqState a, locationiqDistrict a))
           | _ \<Rightarrow> None))"

section \<open>Example data\<close>

subsection \<open>A collection\<close>

definition example_row ::
  "string \<Rightarrow> string \<Rightarrow> int \<Rightarrow> real option \<Rightarrow> real option \<Rightarrow> real option \<Rightarrow> real option \<Rightarrow> real option
     \<Rightarrow> mgnrega_row" where
  "example_row st di y pd ex wc wip wage =
     \<lparr>mgnrega_row.state = st, mgnrega_row.district = di, mgnrega_row.year = y,
      total_persondays_generated = pd, total_expenditure = ex,
      average_days_per_household = None, total_households_worked = None,
      total_completed_works = wc, total_ongoing_works = wip, average_wage_per_day = wage\<rparr>"

definition example_db :: "mgnrega_row list" where
  "example_db =
     [example_row ''Maharashtra'' ''Pune'' 2024 (Some 60000) (Some 40000000) (Some 3) (Some 1) (Some 200),
      example_row ''Maharashtra'' ''Nagpur'' 2024 (Some 50000) (Some 100000000) None None None,
      example_row ''Karnataka'' ''Mysuru'' 2025 (Some 900000) (Some 900000000) (Some 5) (Some 5) (Some 300),
      example_row ''Maharashtra'' ''Pune'' 2024 (Some 40000) (Some 60000000) None None None,
      example_row ''Maharashtra'' ''Nashik'' 2024 (Some 50000) (Some 100000000) (Some 1) (Some 0) (Some 0),
      example_row ''Maharashtra'' ''Thane'' 2023 (Some 700000) (Some 700000000) (Some 1) (Some 1) (Some 250)]"

definition example_rows :: "mgnrega_row list" where
  "example_rows = findDistricts example_db 2024"

definition example_allData :: "districtData list" where
  "example_allData =
    [\<lparr>districtData.district = ''Pune'', totalPersonDays = 100000, totalExpenditure = 100000000,
      employmentProvided = 0, householdsWorked = 0, worksCompleted = 3, worksInProgress = 1,
      avgWageRate = 100, monthsCount = 2\<rparr>,
     \<lparr>districtData.district = ''Nagpur'', totalPersonDays = 50000, totalExpenditure = 100000000,
      employmentProvided = 0, householdsWorked = 0, worksCompleted = 0, worksInProgress = 0,
      avgWageRate = 0, monthsCount = 1\<rparr>,
     \<lparr>districtData.district = ''Nashik'', totalPersonDays = 50000, totalExpenditure = 100000000,
      employmentProvided = 0, householdsWorked = 0, worksCompleted = 1, worksInProgress = 0,
      avgWageRate = 0, monthsCount = 1\<rparr>]"

subsection \<open>Provider answers and environments\<close>

definition mapmy_answer :: "string option \<Rightarrow> string option \<Rightarrow> mapmy_data response" where
  "mapmy_answer st di =
     Resolved (Some \<lparr>responseCode = Some 200,
                     mapmy_data.results =
                       Some [\<lparr>mapmy_result.district = di, subDistrict = None, mapmy_result.state = st,
                              mapmy_result.city = None, locality = None,
                              mapmy_result.formatted_address = None, mapmy_result.accuracy = None\<rparr>]\<rparr>)"

definition geoapify_row :: "string option \<Rightarrow> string option \<Rightarrow> geoapify_result" where
  "geoapify_row st co =
     \<lparr>geoapify_result.county = co, geoapify_result.state_district = None, geoapify_result.district = None,
      geoapify_result.city = None, geoapify_result.state = st, suburb = None, quarter = None,
      geoapify_result.town = None, geoapify_result.village = None, geoapify_result.country = Some ''India'',
      geoapify_result.formatted = None, confidence = Some 1\<rparr>"

definition geoapify_answer :: "string option \<Rightarrow> string option \<Rightarrow> geoapify_data response" where
  "geoapify_answer st co = Resolved (Some \<lparr>geoapify_data.results = Some [geoapify_row st co]\<rparr>)"

definition google_row :: "string \<Rightarrow> string \<Rightarrow> google_result" where
  "google_row st di =
     \<lparr>address_components =
        [\<lparr>long_name = di, types = [''administrative_area_level_3'', ''political'']\<rparr>,
         \<lparr>long_name = st, types = [''administrative_area_level_1'', ''political'']\<rparr>],
      google_result.formatted_address = None, location_type = None\<rparr>"

definition google_answer :: "string \<Rightarrow> string \<Rightarrow> google_data response" where
  "google_answer st di =
     Resolved (Some \<lparr>status = Some ''OK'', google_data.results = Some [google_row st di]\<rparr>)"

definition example_env :: env where
  "example_env =
     \<lparr>GOOGLE_API_KEY = None,
      MAPMYINDIA_API_KEY = Some ''mmi-key'',
      GEOAPIFY_API_KEY = Some ''geo-key'',
      LOCATIONIQ_API_KEY = Some ''liq-key'',
      google_get = (\<lambda>lat lon. Rejected ''getaddrinfo ENOTFOUND''),
      mapmyindia_get = (\<lambda>lat lon. Rejected ''timeout of 5000ms exceeded''),
      geoapify_get = (\<lambda>lat lon. geoapify_answer (Some ''Maharashtra'') (Some ''Aurangabad'')),
      locationiq_get = (\<lambda>lat lon. Rejected ''Request failed with status code 429'')\<rparr>"

definition example_location :: location where
  "example_location =
     \<lparr>location.state = Some ''Maharashtra'',
      location.district = Some ''CHATRAPATI SAMBHAJI NAGAR'',
      location.city = None,
      location.country = Some ''India'',
      location.formatted = Some ''null, Aurangabad, Maharashtra'',
      coordinates = (1987 / 100, 7533 / 100),
      location.accuracy = Num 1,
      source = ''Geoapify'',
      raw = RawGeoapify (geoapify_row (Some ''Maharashtra'') (Some ''Aurangabad''))\<rparr>"

definition failing_env :: env where
  "failing_env =
     \<lparr>GOOGLE_API_KEY = Some ''YOUR_GOOGLE_API_KEY_HERE'',
      MAPMYINDIA_API_KEY = Some ''mmi-key'',
      GEOAPIFY_API_KEY = Some ''geo-key'',
      LOCATIONIQ_API_KEY = Some ''liq-key'',
      google_get = (\<lambda>lat lon. google_answer ''Maharashtra'' ''Pune''),
      mapmyindia_get = (\<lambda>lat lon. mapmy_answer None (Some ''Pune'')),
      geoapify_get = (\<lambda>lat lon. Rejected ''timeout of 5000ms exceeded''),
      locationiq_get = (\<lambda>lat lon. Resolved None)\<rparr>"

definition blank_env :: env where
  "blank_env =
     \<lparr>GOOGLE_API_KEY = None,
      MAPMYINDIA_API_KEY = Some ''mmi-key'',
      GEOAPIFY_API_KEY = Some ''geo-key'',
      LOCATIONIQ_API_KEY = None,
      google_get = (\<lambda>lat lon. Rejected ''getaddrinfo ENOTFOUND''),
      mapmyindia_get = (\<lambda>lat lon. mapmy_answer (Some ''Maharashtra'') (Some '' '')),
      geoapify_get = (\<lambda>lat lon. geoapify_answer (Some ''Karnataka'') (Some ''Mysuru'')),
      locationiq_get = (\<lambda>lat lon. Rejected ''getaddrinfo ENOTFOUND'')\<rparr>"

definition blank_location :: location where
  "blank_location =
     \<lparr>location.state = Some ''Maharashtra'',
      location.district = Some [],
      location.city = None,
      location.country = Some ''India'',
      location.formatted = Some ''null,  , Maharashtra'',
      coordinates = (1987 / 100, 7533 / 100),
      location.accuracy = Str ''high'',
      source = ''MapmyIndia'',
      raw = RawMapmy \<lparr>mapmy_result.district = Some '' '', subDistrict = None,
                       mapmy_result.state = Some ''Maharashtra'', mapmy_result.city = None,
                       locality = None, mapmy_result.formatted_address = None,
                       mapmy_result.accuracy = None\<rparr>\<rparr>"

definition case_env :: env where
  "case_env =
     \<lparr>GOOGLE_API_KEY = Some ''g-key'',
      MAPMYINDIA_API_KEY = Some ''mmi-key'',
      GEOAPIFY_API_KEY = None,
      LOCATIONIQ_API_KEY = None,
      google_get = (\<lambda>lat lon. google_answer ''Karnataka'' ''Pune District''),
      mapmyindia_get = (\<lambda>lat lon. mapmy_answer (Some ''maharashtra'') (Some ''Aurangabad'')),
      geoapify_get = (\<lambda>lat lon. Rejected ''getaddrinfo ENOTFOUND''),
      locationiq_get = (\<lambda>lat lon. Rejected ''getaddrinfo ENOTFOUND'')\<rparr>"

definition case_location_mapmy :: location where
  "case_location_mapmy =
     \<lparr>location.state = Some ''maharashtra'',
      location.district = Some ''Aurangabad'',
      location.city = None,
      location.country = Some ''India'',
      location.formatted = Some ''null, Aurangabad, maharashtra'',
      coordinates = (19, 75),
      location.accuracy = Str ''high'',
      source = ''MapmyIndia'',
      raw = RawMapmy \<lparr>mapmy_result.district = Some ''Aurangabad'', subDistrict = None,
                       mapmy_result.state = Some ''maharashtra'', mapmy_result.city = None,
                       locality = None, mapmy_result.formatted_address = None,
                       mapmy_result.accuracy = None\<rparr>\<rparr>"

definition case_location_google :: location where
  "case_location_google =
     \<lparr>location.state = Some ''Karnataka'',
      location.district = Some ''PUNE'',
      location.city = Some ''PUNE'',
      location.country = Some ''India'',
      location.formatted = None,
      coordinates = (19, 75),
      location.accuracy = Str ''APPROXIMATE'',
      source = ''Google'',
      raw = RawGoogle (google_row ''Karnataka'' ''Pune District'')\<rparr>"

section \<open>The leaderboard\<close>

subsection \<open>Rounding and maxima\<close>


lemma Math_round_int: "Math_round (of_int n) = of_int n"
  unfolding Math_round_def by (simp add: floor_unique)

lemma Math_round_0: "Math_round 0 = 0"
  using Math_round_int[of 0] by simp








subsection \<open>Ranks and entries\<close>

lemma addRanks_length: "length (addRanks i xs) = length xs"
  by (induction xs arbitrary: i) auto

lemma addRanks_nth:
  "k < length xs \<Longrightarrow>
   addRanks i xs ! k = (xs ! k)\<lparr>rank := i + k + 1, rankEmoji := Some (rankEmojiFor (i + k + 1))\<rparr>"
proof (induction xs arbitrary: i k)
  case Nil then show ?case by simp
next
  case (Cons x xs)
  show ?case
  proof (cases k)
    case 0 then show ?thesis by simp
  next
    case (Suc j)
    with Cons.prems have "j < length xs" by simp
    from Cons.IH[OF this, of "Suc i"] Suc show ?thesis by simp
  qed
qed

lemma addRanks_rank: "map rank (addRanks i xs) = [Suc i ..< Suc i + length xs]"
proof (induction xs arbitrary: i)
  case Nil show ?case by simp
next
  case (Cons x xs)
  have "[Suc i ..< Suc i + length (x # xs)] = Suc i # [Suc (Suc i) ..< Suc (Suc i) + length xs]"
    by (simp add: upt_rec)
  with Cons[of "Suc i"] show ?case by simp
qed

lemma addRanks_set:
  "e \<in> set (addRanks i xs) \<Longrightarrow>
   \<exists>x\<in>set xs. \<exists>r. e = x\<lparr>rank := r, rankEmoji := Some (rankEmojiFor r)\<rparr>"
  by (induction xs arbitrary: i) auto

lemma sortByScore_set: "set (sortByScore es) = set es"
  by (simp add: sortByScore_def)

lemma sortByScore_length: "length (sortByScore es) = length es"
  by (simp add: sortByScore_def)

lemma buildLeaderboard_entry:
  assumes "e \<in> set (buildLeaderboard ds)"
  shows "\<exists>d\<in>set ds. \<exists>r. e = (makeEntry (maxPersonDays ds) (maxExpenditure ds) d)
            \<lparr>rank := r, rankEmoji := Some (rankEmojiFor r)\<rparr>"
proof -
  from assms obtain x r where x: "x \<in> set (sortByScore (scoreAll ds))"
    and e: "e = x\<lparr>rank := r, rankEmoji := Some (rankEmojiFor r)\<rparr>"
    unfolding buildLeaderboard_def by (blast dest: addRanks_set)
  from x have "x \<in> set (scoreAll ds)" by (simp add: sortByScore_set)
  then obtain d where "d \<in> set ds" "x = makeEntry (maxPersonDays ds) (maxExpenditure ds) d"
    by (auto simp: scoreAll_def)
  with e show ?thesis by blast
qed


lemma makeEntry_fields:
  "entry.district (makeEntry mp me d) = districtData.district d"
  "metrics.totalPersonDays (metrics (makeEntry mp me d)) = districtData.totalPersonDays d"
  "metrics.totalExpenditure (metrics (makeEntry mp me d)) = districtData.totalExpenditure d"
  "metrics.worksCompleted (metrics (makeEntry mp me d)) = districtData.worksCompleted d"
  "metrics.worksInProgress (metrics (makeEntry mp me d)) = districtData.worksInProgress d"
  "completionRate (metrics (makeEntry mp me d)) = completionRateOf d"
  by (simp_all add: makeEntry_def Let_def)


subsection \<open>Grouping\<close>

lemma step_keys:
  "map fst (districtMap_step r m) =
     (if mgnrega_row.district r \<in> fst ` set m then map fst m else map fst m @ [mgnrega_row.district r])"
  by (induction m) (auto split: if_splits)

lemma step_lookup:
  "map_of (districtMap_step r m) k =
     (if k = mgnrega_row.district r
      then Some (accumulate r (case map_of m k of None \<Rightarrow> newDistrictData k | Some d \<Rightarrow> d))
      else map_of m k)"
  by (induction m) auto

lemma aggregateRows_snoc:
  "aggregateRows (rows @ [r]) = districtMap_step r (aggregateRows rows)"
  by (simp add: aggregateRows_def)

lemma aggregateRows_keys:
  "set (map fst (aggregateRows rows)) = mgnrega_row.district ` set rows
   \<and> distinct (map fst (aggregateRows rows))"
proof (induction rows rule: rev_induct)
  case Nil show ?case by (simp add: aggregateRows_def)
next
  case (snoc r rows)
  then show ?case
    by (auto simp: aggregateRows_snoc step_keys)
qed

lemma aggregateRows_lookup:
  "map_of (aggregateRows rows) k =
     (if k \<in> mgnrega_row.district ` set rows then Some (groupFold k rows) else None)"
proof (induction rows rule: rev_induct)
  case Nil show ?case by (simp add: aggregateRows_def)
next
  case (snoc r rows)
  have empty: "filter (\<lambda>x. mgnrega_row.district x = mgnrega_row.district r) rows = []"
    if "mgnrega_row.district r \<notin> mgnrega_row.district ` set rows"
  proof -
    have "\<forall>x\<in>set rows. mgnrega_row.district x \<noteq> mgnrega_row.district r"
    proof
      fix x assume "x \<in> set rows"
      then have "mgnrega_row.district x \<in> mgnrega_row.district ` set rows" by (rule imageI)
      with that show "mgnrega_row.district x \<noteq> mgnrega_row.district r" by metis
    qed
    then show ?thesis by (simp add: filter_empty_conv)
  qed
  show ?case
    using snoc empty by (auto simp: aggregateRows_snoc step_lookup groupFold_def)
qed

lemma aggregateRows_member:
  assumes "(k, d) \<in> set (aggregateRows rows)"
  shows "k \<in> mgnrega_row.district ` set rows \<and> d = groupFold k rows"
proof -
  have "distinct (map fst (aggregateRows rows))" using aggregateRows_keys by blast
  with assms have "map_of (aggregateRows rows) k = Some d" by simp
  then show ?thesis by (auto simp: aggregateRows_lookup split: if_splits)
qed

lemma foldl_accumulate_fields:
  "districtData.district (foldl (\<lambda>d r. accumulate r d) d0 rs) = districtData.district d0"
  "monthsCount (foldl (\<lambda>d r. accumulate r d) d0 rs) = monthsCount d0 + length rs"
  "districtData.avgWageRate (foldl (\<lambda>d r. accumulate r d) d0 rs)
     = districtData.avgWageRate d0 + sum_list (map (\<lambda>r. orZero (average_wage_per_day r)) rs)"
  by (induction rs arbitrary: d0) (simp_all add: accumulate_def)

lemma groupFold_fields:
  "districtData.district (groupFold k rows) = k"
  "monthsCount (groupFold k rows) = length (filter (\<lambda>r. mgnrega_row.district r = k) rows)"
  "districtData.avgWageRate (groupFold k rows)
     = sum_list (map (\<lambda>r. orZero (average_wage_per_day r)) (filter (\<lambda>r. mgnrega_row.district r = k) rows))"
  by (simp_all add: groupFold_def foldl_accumulate_fields newDistrictData_def)

lemma allData_length: "length (allData rows) = card (mgnrega_row.district ` set rows)"
proof -
  have "length (allData rows) = length (map fst (aggregateRows rows))"
    by (simp add: allData_def)
  also have "\<dots> = card (set (map fst (aggregateRows rows)))"
    using aggregateRows_keys[of rows] distinct_card[of "map fst (aggregateRows rows)"] by simp
  also have "\<dots> = card (mgnrega_row.district ` set rows)"
    using aggregateRows_keys[of rows] by simp
  finally show ?thesis .
qed

lemma allData_member:
  assumes "d \<in> set (allData rows)"
  shows "districtData.district d \<in> mgnrega_row.district ` set rows
         \<and> d = averageWage (groupFold (districtData.district d) rows)"
proof -
  from assms obtain k d' where kd: "(k, d') \<in> set (aggregateRows rows)" and d: "d = averageWage d'"
    by (auto simp: allData_def)
  from aggregateRows_member[OF kd] have k: "k \<in> mgnrega_row.district ` set rows"
    and d': "d' = groupFold k rows" by simp_all
  have "districtData.district d = k" by (simp add: d d' averageWage_def groupFold_fields)
  with k d d' show ?thesis by simp
qed

lemma sum_list_all_zero:
  "list_all (\<lambda>r. f r = (0::real)) rs \<Longrightarrow> sum_list (map f rs) = 0"
  by (induction rs) simp_all

lemma getMaharashtraLeaderboard_leaderboard:
  "leaderboard (getMaharashtraLeaderboard db) =
     (case latestYear db of
        None \<Rightarrow> []
      | Some y \<Rightarrow> buildLeaderboard (allData (findDistricts db y)))"
  by (simp add: getMaharashtraLeaderboard_def Let_def split: option.splits)

subsection \<open>Stability of the sort\<close>

lemma filter_eq_append_split:
  "filter P xs = as @ bs \<Longrightarrow> \<exists>us vs. xs = us @ vs \<and> filter P us = as \<and> filter P vs = bs"
proof (induction xs arbitrary: as)
  case Nil
  then show ?case by simp
next
  case (Cons x xs)
  show ?case
  proof (cases "P x")
    case False
    with Cons.prems have "filter P xs = as @ bs" by simp
    from Cons.IH[OF this] obtain us vs where "xs = us @ vs" "filter P us = as" "filter P vs = bs"
      by blast
    with False have "x # xs = (x # us) @ vs \<and> filter P (x # us) = as \<and> filter P vs = bs" by simp
    then show ?thesis by blast
  next
    case True
    show ?thesis
    proof (cases as)
      case Nil
      with Cons.prems have "x # xs = [] @ (x # xs) \<and> filter P [] = as \<and> filter P (x # xs) = bs"
        by simp
      then show ?thesis by blast
    next
      case (Cons a as')
      with True Cons.prems have ax: "a = x" and "filter P xs = as' @ bs" by simp_all
      from Cons.IH[OF this(2)] obtain us vs where "xs = us @ vs" "filter P us = as'" "filter P vs = bs"
        by blast
      with True Cons ax have "x # xs = (x # us) @ vs \<and> filter P (x # us) = as \<and> filter P vs = bs"
        by simp
      then show ?thesis by blast
    qed
  qed
qed

lemma filter_order_reflect:
  assumes "filter P zs = as @ x # bs @ y # cs"
  shows "\<exists>us vs ws. zs = us @ x # vs @ y # ws"
proof -
  from filter_eq_append_split[OF assms] obtain s1 s2 where z: "zs = s1 @ s2"
    and s2: "filter P s2 = x # (bs @ y # cs)" by blast
  from filter_eq_ConsD[OF s2] obtain u2 v2 where s2': "s2 = u2 @ x # v2"
    and v2: "bs @ y # cs = filter P v2" by blast
  from filter_eq_append_split[OF v2[symmetric]] obtain v3 v4 where v: "v2 = v3 @ v4"
    and v4: "filter P v4 = y # cs" by blast
  from filter_eq_ConsD[OF v4] obtain u4 w4 where v4': "v4 = u4 @ y # w4" by blast
  have "zs = (s1 @ u2) @ x # (v3 @ u4) @ y # w4" by (simp add: z s2' v v4')
  then show ?thesis by blast
qed

lemma sort_key_keeps_order:
  assumes "xs = us @ x # vs @ y # ws" and "f x = f y"
  shows "\<exists>us' vs' ws'. sort_key f xs = us' @ x # vs' @ y # ws'"
proof -
  let ?P = "\<lambda>z. f z = f x"
  have "filter ?P (sort_key f xs) = filter ?P xs" by (rule sort_key_stable)
  also have "\<dots> = filter ?P us @ x # filter ?P vs @ y # filter ?P ws"
    using assms by simp
  finally show ?thesis by (rule filter_order_reflect)
qed

lemma split_at_two:
  assumes "i < j" "j < length xs"
  shows "\<exists>us vs ws. xs = us @ xs ! i # vs @ xs ! j # ws"
proof -
  from assms have i: "i < length xs" by simp
  let ?r = "drop (Suc i) xs"
  from assms have k: "j - Suc i < length ?r" by simp
  have rj: "?r ! (j - Suc i) = xs ! j" using assms by simp
  have "xs = take i xs @ xs ! i # ?r" using i by (rule id_take_nth_drop)
  moreover have "?r = take (j - Suc i) ?r @ xs ! j # drop (Suc (j - Suc i)) ?r"
    using id_take_nth_drop[OF k] rj by simp
  ultimately have "xs = take i xs @ xs ! i # take (j - Suc i) ?r @ xs ! j # drop (Suc (j - Suc i)) ?r"
    by simp
  then show ?thesis by blast
qed

subsection \<open>The example collection\<close>

lemma example_latestYear: "latestYear example_db = Some 2024"
  by (simp add: latestYear_def example_db_def example_row_def)

lemma example_rows_eval: "example_rows =
     [example_row ''Maharashtra'' ''Pune'' 2024 (Some 60000) (Some 40000000) (Some 3) (Some 1) (Some 200),
      example_row ''Maharashtra'' ''Nagpur'' 2024 (Some 50000) (Some 100000000) None None None,
      example_row ''Maharashtra'' ''Pune'' 2024 (Some 40000) (Some 60000000) None None None,
      example_row ''Maharashtra'' ''Nashik'' 2024 (Some 50000) (Some 100000000) (Some 1) (Some 0) (Some 0)]"
  by (simp add: example_rows_def findDistricts_def example_db_def example_row_def)

lemma example_allData_eval: "allData example_rows = example_allData"
  by (simp add: example_rows_eval allData_def aggregateRows_def example_row_def accumulate_def
      newDistrictData_def averageWage_def orZero_def Math_round_def example_allData_def)





lemma example_getLeaderboard:
  "leaderboard (getMaharashtraLeaderboard example_db) = buildLeaderboard example_allData"
  "success (getMaharashtraLeaderboard example_db)"
  by (simp_all add: getMaharashtraLeaderboard_def example_latestYear Let_def
      example_rows_def[symmetric] example_allData_eval)

subsection \<open>Scores\<close>



subsection \<open>Ranks\<close>

text \<open>
  Claim C3. The rows fall into \<open>N\<close> groups, one for each distinct district name. The
  leaderboard built from them has exactly \<open>N\<close> entries and their ranks, read in order, are
  \<open>1, 2, ..., N\<close>: the ranks form the set \<open>{1..N}\<close> and none occurs twice, whatever the
  scores are.
\<close>

theorem ranks_contiguous:
  "length (buildLeaderboard (allData rows)) = card (mgnrega_row.district ` set rows)
   \<and> map rank (buildLeaderboard (allData rows)) = [1 ..< Suc (card (mgnrega_row.district ` set rows))]
   \<and> rank ` set (buildLeaderboard (allData rows)) = {1 .. card (mgnrega_row.district ` set rows)}
   \<and> distinct (map rank (buildLeaderboard (allData rows)))"
proof -
  let ?lb = "buildLeaderboard (allData rows)" and ?n = "card (mgnrega_row.district ` set rows)"
  have len: "length ?lb = ?n"
    by (simp add: buildLeaderboard_def addRanks_length sortByScore_length scoreAll_def allData_length)
  have "map rank ?lb = [Suc 0 ..< Suc 0 + length (sortByScore (scoreAll (allData rows)))]"
    unfolding buildLeaderboard_def by (rule addRanks_rank)
  then have ranks: "map rank ?lb = [1 ..< Suc ?n]"
    by (simp add: sortByScore_length scoreAll_def allData_length)
  have "rank ` set ?lb = set (map rank ?lb)" by simp
  also have "\<dots> = {1 .. ?n}" unfolding ranks by auto
  finally have st: "rank ` set ?lb = {1 .. ?n}" .
  have "distinct (map rank ?lb)" unfolding ranks by simp
  with len ranks st show ?thesis by blast
qed

theorem ranks_contiguous_witness:
  "length (buildLeaderboard (allData example_rows)) = 3
   \<and> map rank (buildLeaderboard (allData example_rows)) = [1, 2, 3]"
proof -
  have "card (mgnrega_row.district ` set example_rows) = 3"
    using allData_length[of example_rows] by (simp add: example_allData_eval example_allData_def)
  with ranks_contiguous[of example_rows] show ?thesis
    by (simp add: upt_rec)
qed

text \<open>
  Claim C4. When the \<open>i\<close>-th and the \<open>j\<close>-th group, \<open>i < j\<close> in the iteration order of
  \<open>districtMap\<close>, are given equal scores, the entry of the \<open>i\<close>-th group stands at an
  earlier position of the leaderboard than the entry of the \<open>j\<close>-th group and has the
  smaller rank.
\<close>

theorem stable_ties:
  assumes "i < j" and "j < length ds"
    and "score (scoreAll ds ! i) = score (scoreAll ds ! j)"
  shows "\<exists>p q. p < q \<and> q < length (buildLeaderboard ds)
           \<and> buildLeaderboard ds ! p
               = (scoreAll ds ! i)\<lparr>rank := p + 1, rankEmoji := Some (rankEmojiFor (p + 1))\<rparr>
           \<and> buildLeaderboard ds ! q
               = (scoreAll ds ! j)\<lparr>rank := q + 1, rankEmoji := Some (rankEmojiFor (q + 1))\<rparr>
           \<and> entry.district (buildLeaderboard ds ! p) = districtData.district (ds ! i)
           \<and> entry.district (buildLeaderboard ds ! q) = districtData.district (ds ! j)
           \<and> rank (buildLeaderboard ds ! p) < rank (buildLeaderboard ds ! q)"
proof -
  let ?es = "scoreAll ds" and ?srt = "sortByScore (scoreAll ds)"
  have len: "length ?es = length ds" by (simp add: scoreAll_def)
  with assms have j: "j < length ?es" by simp
  from split_at_two[OF assms(1) j] obtain us vs ws
    where es: "?es = us @ ?es ! i # vs @ ?es ! j # ws" by blast
  have key: "- score (?es ! i) = - score (?es ! j)" using assms(3) by simp
  from sort_key_keeps_order[OF es, of "\<lambda>e. - score e"] key obtain us' vs' ws'
    where srt: "?srt = us' @ ?es ! i # vs' @ ?es ! j # ws'"
    unfolding sortByScore_def by blast
  define p where "p = length us'"
  define q where "q = length us' + Suc (length vs')"
  have pq: "p < q" by (simp add: p_def q_def)
  have ql: "q < length ?srt" by (subst srt) (simp add: q_def)
  then have pl: "p < length ?srt" using pq by simp
  have sp: "?srt ! p = ?es ! i" by (subst srt) (simp add: p_def)
  have sq: "?srt ! q = ?es ! j"
    by (subst srt) (simp add: q_def nth_append)
  have bp: "buildLeaderboard ds ! p = (?es ! i)\<lparr>rank := p + 1, rankEmoji := Some (rankEmojiFor (p + 1))\<rparr>"
    unfolding buildLeaderboard_def using addRanks_nth[OF pl, of 0] sp by simp
  have bq: "buildLeaderboard ds ! q = (?es ! j)\<lparr>rank := q + 1, rankEmoji := Some (rankEmojiFor (q + 1))\<rparr>"
    unfolding buildLeaderboard_def using addRanks_nth[OF ql, of 0] sq by simp
  have di: "entry.district (?es ! i) = districtData.district (ds ! i)"
    using assms by (simp add: scoreAll_def makeEntry_fields)
  have dj: "entry.district (?es ! j) = districtData.district (ds ! j)"
    using assms by (simp add: scoreAll_def makeEntry_fields)
  have "q < length (buildLeaderboard ds)"
    using ql by (simp add: buildLeaderboard_def addRanks_length)
  with pq bp bq di dj show ?thesis
    by (intro exI[of _ p] exI[of _ q]) simp
qed

theorem stable_ties_witness:
  "(1::nat) < 2 \<and> 2 < length example_allData
   \<and> score (scoreAll example_allData ! 1) = score (scoreAll example_allData ! 2)
   \<and> (\<exists>p q. p < q \<and> q < length (buildLeaderboard example_allData)
         \<and> entry.district (buildLeaderboard example_allData ! p) = ''Nagpur''
         \<and> entry.district (buildLeaderboard example_allData ! q) = ''Nashik''
         \<and> rank (buildLeaderboard example_allData ! p) < rank (buildLeaderboard example_allData ! q))"
proof -
  have l: "2 < length example_allData" by (simp add: example_allData_def)
  have sc: "score (scoreAll example_allData ! 1) = score (scoreAll example_allData ! 2)"
    by (simp add: example_allData_def scoreAll_def makeEntry_def Let_def
      calculatePerformanceScore_def maxPersonDays_def maxExpenditure_def maxFloor1_def Math_round_def)
  have d: "districtData.district (example_allData ! 1) = ''Nagpur''"
    "districtData.district (example_allData ! 2) = ''Nashik''"
    by (simp_all add: example_allData_def)
  from stable_ties[OF _ l sc] d l sc show ?thesis by fastforce
qed

subsection \<open>Average wage rate\<close>

text \<open>
  Claim C5, as amended. The average wage rate of a district is \<open>Math.round\<close> of the sum of
  the wage rates of all rows of the district, a missing rate counting as 0, divided by the
  number of all rows of the district. Every district of the result has at least one row, so
  the divisor is never 0; a district whose rows all report the rate 0 or none gets 0.
\<close>

theorem avgWageRate_all_rows:
  assumes "d \<in> set (allData rows)"
  shows "filter (\<lambda>r. mgnrega_row.district r = districtData.district d) rows \<noteq> []
       \<and> districtData.avgWageRate d =
           Math_round (sum_list (map (\<lambda>r. orZero (average_wage_per_day r))
                                   (filter (\<lambda>r. mgnrega_row.district r = districtData.district d) rows))
                       / real (length (filter (\<lambda>r. mgnrega_row.district r = districtData.district d) rows)))
       \<and> (list_all (\<lambda>r. orZero (average_wage_per_day r) = 0)
                    (filter (\<lambda>r. mgnrega_row.district r = districtData.district d) rows)
            \<longrightarrow> districtData.avgWageRate d = 0)"
proof -
  let ?k = "districtData.district d"
  let ?g = "filter (\<lambda>r. mgnrega_row.district r = ?k) rows"
  from allData_member[OF assms] have k: "?k \<in> mgnrega_row.district ` set rows"
    and d: "d = averageWage (groupFold ?k rows)" by simp_all
  from k have ne: "?g \<noteq> []" by (auto simp: filter_empty_conv)
  then have pos: "0 < length ?g" by simp
  have "districtData.avgWageRate (averageWage (groupFold ?k rows)) =
        Math_round (sum_list (map (\<lambda>r. orZero (average_wage_per_day r)) ?g) / real (length ?g))"
    using pos by (simp add: averageWage_def groupFold_fields)
  with d have avg: "districtData.avgWageRate d =
        Math_round (sum_list (map (\<lambda>r. orZero (average_wage_per_day r)) ?g) / real (length ?g))"
    by simp
  have zero: "districtData.avgWageRate d = 0"
    if "list_all (\<lambda>r. orZero (average_wage_per_day r) = 0) ?g"
    using sum_list_all_zero[OF that] by (simp add: avg Math_round_0)
  from ne avg zero show ?thesis by blast
qed

theorem avgWageRate_all_rows_witness:
  "hd (allData example_rows) \<in> set (allData example_rows)
   \<and> districtData.district (hd (allData example_rows)) = ''Pune''
   \<and> length (filter (\<lambda>r. mgnrega_row.district r = ''Pune'') example_rows) = 2
   \<and> districtData.avgWageRate (hd (allData example_rows)) = Math_round (200 / 2)
   \<and> allData example_rows ! 1 \<in> set (allData example_rows)
   \<and> districtData.district (allData example_rows ! 1) = ''Nagpur''
   \<and> list_all (\<lambda>r. orZero (average_wage_per_day r) = 0)
        (filter (\<lambda>r. mgnrega_row.district r = ''Nagpur'') example_rows)
   \<and> districtData.avgWageRate (allData example_rows ! 1) = 0"
proof -
  have mem: "hd (allData example_rows) \<in> set (allData example_rows)"
    by (simp add: example_allData_eval example_allData_def)
  have k: "districtData.district (hd (allData example_rows)) = ''Pune''"
    by (simp add: example_allData_eval example_allData_def)
  have g: "filter (\<lambda>r. mgnrega_row.district r = ''Pune'') example_rows =
     [example_row ''Maharashtra'' ''Pune'' 2024 (Some 60000) (Some 40000000) (Some 3) (Some 1) (Some 200),
      example_row ''Maharashtra'' ''Pune'' 2024 (Some 40000) (Some 60000000) None None None]"
    by (simp add: example_rows_eval example_row_def)
  have mem': "allData example_rows ! 1 \<in> set (allData example_rows)"
    by (simp add: example_allData_eval example_allData_def)
  have k': "districtData.district (allData example_rows ! 1) = ''Nagpur''"
    by (simp add: example_allData_eval example_allData_def)
  have g': "filter (\<lambda>r. mgnrega_row.district r = ''Nagpur'') example_rows =
     [example_row ''Maharashtra'' ''Nagpur'' 2024 (Some 50000) (Some 100000000) None None None]"
    by (simp add: example_rows_eval example_row_def)
  have z: "list_all (\<lambda>r. orZero (average_wage_per_day r) = 0)
             (filter (\<lambda>r. mgnrega_row.district r = ''Nagpur'') example_rows)"
    by (simp add: g' example_row_def orZero_def)
  have p1: "districtData.avgWageRate (hd (allData example_rows)) = Math_round (200 / 2)"
    using avgWageRate_all_rows[OF mem] by (simp add: k g example_row_def orZero_def)
  have p2: "districtData.avgWageRate (allData example_rows ! 1) = 0"
    using avgWageRate_all_rows[OF mem'] z unfolding k' by blast
  have l: "length (filter (\<lambda>r. mgnrega_row.district r = ''Pune'') example_rows) = 2"
    by (simp add: g)
  from mem k l p1 mem' k' z p2 show ?thesis by blast
qed

text \<open>
  The claim as written fails: Pune has two rows, one with the rate 200 and one without a
  rate. The service divides 200 by 2; the mean over the rows that report a rate is 200.
\<close>

theorem avgWageRate_counterexample:
  "districtData.district (hd (allData example_rows)) = ''Pune''
   \<and> districtData.avgWageRate (hd (allData example_rows)) = 100
   \<and> spec_avgWageRate example_rows ''Pune'' = 200"
proof -
  have "spec_avgWageRate example_rows ''Pune'' = 200"
    by (simp add: spec_avgWageRate_def example_rows_eval example_row_def orZero_def)
  then show ?thesis
    by (simp add: example_allData_eval example_allData_def)
qed

subsection \<open>Completion rate\<close>



subsection \<open>Districts by category\<close>

lemma category_is_label:
  assumes "e \<in> set (buildLeaderboard ds)"
  shows "category e = label_excellent \<or> category e = label_good
         \<or> category e = label_average \<or> category e = label_needs_improvement"
proof -
  from buildLeaderboard_entry[OF assms] obtain d r where
    "e = (makeEntry (maxPersonDays ds) (maxExpenditure ds) d)\<lparr>rank := r, rankEmoji := Some (rankEmojiFor r)\<rparr>"
    by blast
  then show ?thesis
    by (simp add: makeEntry_def Let_def getPerformanceCategory_def)
qed

lemma labels_not_english:
  "toLowerCase label_excellent \<noteq> toLowerCase ''Excellent''"
  "toLowerCase label_good \<noteq> toLowerCase ''Excellent''"
  "toLowerCase label_average \<noteq> toLowerCase ''Excellent''"
  "toLowerCase label_needs_improvement \<noteq> toLowerCase ''Excellent''"
  by code_simp+

lemma excellent_never_matches:
  "getDistrictsByCategory db ''Excellent'' = []"
proof -
  have "toLowerCase (category e) \<noteq> toLowerCase ''Excellent''"
    if "e \<in> set (leaderboard (getMaharashtraLeaderboard db))" for e
  proof (cases "latestYear db")
    case None
    with that show ?thesis by (simp add: getMaharashtraLeaderboard_leaderboard)
  next
    case (Some y)
    with that have "e \<in> set (buildLeaderboard (allData (findDistricts db y)))"
      by (simp add: getMaharashtraLeaderboard_leaderboard)
    from category_is_label[OF this] labels_not_english show ?thesis by metis
  qed
  then show ?thesis
    by (auto simp: getDistrictsByCategory_def Let_def filter_empty_conv)
qed

text \<open>
  Claim C9. \<open>getDistrictsByCategory\<close> compares the requested name with the field
  \<open>category\<close> of an entry, which holds the Marathi display label and not the English name.
  So the request \<open>Excellent\<close> returns no entry, whatever the collection holds. On the
  example collection Pune scores 100 and Nagpur and Nashik score 70: by the thresholds Pune
  is Excellent and the other two are Good, yet the request \<open>Good\<close> returns no entry
  either.
\<close>

theorem getDistrictsByCategory_english_name_empty:
  "getDistrictsByCategory db ''Excellent'' = []
   \<and> map (\<lambda>e. (rank e, entry.district e, score e)) (leaderboard (getMaharashtraLeaderboard example_db))
       = [(1, ''Pune'', 100), (2, ''Nagpur'', 70), (3, ''Nashik'', 70)]
   \<and> getDistrictsByCategory example_db ''Good'' = []"
proof -
  have "map (\<lambda>e. (rank e, entry.district e, score e)) (leaderboard (getMaharashtraLeaderboard example_db))
          = [(1, ''Pune'', 100), (2, ''Nagpur'', 70), (3, ''Nashik'', 70)]
        \<and> getDistrictsByCategory example_db ''Good'' = []"
    by (simp add: getDistrictsByCategory_def example_getLeaderboard Let_def
        example_allData_def buildLeaderboard_def sortByScore_def scoreAll_def makeEntry_def
        calculatePerformanceScore_def maxPersonDays_def maxExpenditure_def maxFloor1_def
        completionRateOf_def Math_round_def getPerformanceCategory_def toLowerCase_def lowerChar_def
        label_excellent_def label_good_def)
  with excellent_never_matches[of db] show ?thesis by simp
qed

section \<open>Geolocation\<close>

subsection \<open>Case mapping, trimming and the suffixes\<close>

lemma upperChar_code:
  "of_char (upperChar c) = (if 97 \<le> (of_char c :: nat) \<and> (of_char c :: nat) \<le> 122
                            then of_char c - 32 else (of_char c :: nat))"
proof (cases "97 \<le> (of_char c :: nat) \<and> (of_char c :: nat) \<le> 122")
  case True
  then have "((of_char c :: nat) - 32) mod 256 = of_char c - 32" by (intro mod_less) linarith
  with True show ?thesis by (simp add: upperChar_def Let_def)
next
  case False
  then show ?thesis by (auto simp: upperChar_def Let_def)
qed

lemma upperChar_idem: "upperChar (upperChar c) = upperChar c"
proof -
  have "\<not> (97 \<le> (of_char (upperChar c) :: nat) \<and> (of_char (upperChar c) :: nat) \<le> 122)"
    by (auto simp: upperChar_code)
  then show ?thesis by (subst upperChar_def) (auto simp: Let_def)
qed

lemma isSpace_upperChar: "isSpace (upperChar c) = isSpace c"
  unfolding isSpace_def Let_def upperChar_code by auto

lemma toUpperCase_idem: "toUpperCase (toUpperCase s) = toUpperCase s"
  by (simp add: toUpperCase_def upperChar_idem)

lemma dropWhile_isSpace_upper:
  "dropWhile isSpace (toUpperCase s) = toUpperCase (dropWhile isSpace s)"
proof -
  have "isSpace \<circ> upperChar = isSpace" by (rule ext) (simp add: isSpace_upperChar)
  then show ?thesis by (simp add: toUpperCase_def dropWhile_map)
qed

lemma trim_toUpperCase: "trim (toUpperCase s) = toUpperCase (trim s)"
proof -
  have r: "rev (toUpperCase t) = toUpperCase (rev t)" for t
    by (simp add: toUpperCase_def rev_map)
  show ?thesis
    unfolding trim_def by (simp add: dropWhile_isSpace_upper r)
qed

lemma no_leading_space: "dropWhile isSpace (trim s) = trim s"
proof (cases "trim s = []")
  case True then show ?thesis by simp
next
  case False
  let ?a = "dropWhile isSpace s"
  from False have ne: "?a \<noteq> []"
    by (metis trim_def dropWhile.simps(1) rev.simps(1))
  define k where "k = length ?a - length (takeWhile isSpace (rev ?a))"
  have "trim s = rev (drop (length (takeWhile isSpace (rev ?a))) (rev ?a))"
    unfolding trim_def by (subst dropWhile_eq_drop) simp
  also have "\<dots> = take k ?a"
    by (simp add: rev_drop k_def)
  finally have pre: "trim s = take k ?a" .
  with False have "0 < k" by (cases k) simp_all
  then have "hd (take k ?a) = hd ?a" by (rule hd_take)
  with pre have "hd (trim s) = hd ?a" by simp
  moreover have "\<not> isSpace (hd ?a)" using ne by (rule hd_dropWhile)
  ultimately show ?thesis by (simp add: dropWhile_eq_self_iff)
qed

lemma trim_idem: "trim (trim s) = trim s"
  by (simp add: trim_def[of "trim s"] no_leading_space) (simp add: trim_def)

lemma stripSuffix_cases:
  "stripSuffix suffix t = t
   \<or> (\<exists>c rest. drop (length suffix) (rev t) = c # rest \<and> isSpace c
         \<and> stripSuffix suffix t = rev (dropWhile isSpace rest))"
  by (auto simp: stripSuffix_def Let_def split: list.splits)

lemma stripSuffix_take: "\<exists>k. stripSuffix suffix t = take k t"
proof -
  from stripSuffix_cases[of suffix t] show ?thesis
  proof
    assume "stripSuffix suffix t = t"
    then have "stripSuffix suffix t = take (length t) t" by simp
    then show ?thesis by blast
  next
    assume "\<exists>c rest. drop (length suffix) (rev t) = c # rest \<and> isSpace c
              \<and> stripSuffix suffix t = rev (dropWhile isSpace rest)"
    then obtain c rest where d: "drop (length suffix) (rev t) = c # rest"
      and r: "stripSuffix suffix t = rev (dropWhile isSpace rest)" by blast
    from d have "rest = tl (drop (length suffix) (rev t))" by simp
    then have rest: "rest = drop (Suc (length suffix)) (rev t)" by (simp add: drop_Suc tl_drop)
    let ?m = "length (takeWhile isSpace rest)"
    have "dropWhile isSpace rest = drop (?m + Suc (length suffix)) (rev t)"
      by (subst dropWhile_eq_drop) (simp add: rest)
    then have "stripSuffix suffix t = take (length t - (?m + Suc (length suffix))) t"
      by (simp add: r rev_drop)
    then show ?thesis by blast
  qed
qed

lemma stripSuffix_upper:
  assumes "toUpperCase t = t"
  shows "toUpperCase (stripSuffix suffix t) = stripSuffix suffix t"
proof -
  from stripSuffix_take obtain k where k: "stripSuffix suffix t = take k t" by blast
  have "toUpperCase (take k t) = take k (toUpperCase t)" by (simp add: toUpperCase_def take_map)
  with assms k show ?thesis by simp
qed

lemma trimmed_no_leading: "trim t = t \<Longrightarrow> dropWhile isSpace t = t"
  using no_leading_space[of t] by simp

lemma stripSuffix_trimmed:
  assumes "trim t = t"
  shows "trim (stripSuffix suffix t) = stripSuffix suffix t"
proof -
  let ?u = "stripSuffix suffix t"
  from stripSuffix_cases[of suffix t] show ?thesis
  proof
    assume "?u = t" with assms show ?thesis by simp
  next
    assume "\<exists>c rest. drop (length suffix) (rev t) = c # rest \<and> isSpace c
              \<and> ?u = rev (dropWhile isSpace rest)"
    then obtain rest where r: "?u = rev (dropWhile isSpace rest)" by blast
    from stripSuffix_take obtain k where k: "?u = take k t" by blast
    have lead: "dropWhile isSpace ?u = ?u"
    proof (cases "?u = []")
      case True then show ?thesis by simp
    next
      case False
      with k have "0 < k" "t \<noteq> []" by (cases k; auto)+
      then have "hd ?u = hd t" by (simp add: k)
      moreover from trimmed_no_leading[OF assms] \<open>t \<noteq> []\<close> have "\<not> isSpace (hd t)"
        by (simp add: dropWhile_eq_self_iff)
      ultimately show ?thesis by (simp add: dropWhile_eq_self_iff)
    qed
    have "trim ?u = rev (dropWhile isSpace (rev ?u))"
      unfolding trim_def by (simp only: lead)
    also have "\<dots> = rev (dropWhile isSpace (dropWhile isSpace rest))" by (simp add: r)
    also have "\<dots> = ?u" by (simp add: r)
    finally show ?thesis .
  qed
qed

lemma stripUnits_upper: "toUpperCase t = t \<Longrightarrow> toUpperCase (stripUnits t) = stripUnits t"
  unfolding stripUnits_def by (intro stripSuffix_upper)

lemma stripUnits_trimmed: "trim t = t \<Longrightarrow> trim (stripUnits t) = stripUnits t"
  unfolding stripUnits_def by (intro stripSuffix_trimmed)

lemma not_endsWithUnit: "\<not> endsWithUnit y \<Longrightarrow> stripUnits y = y"
  by (simp add: endsWithUnit_def stripUnits_def)

lemma stripSuffix_length: "length (stripSuffix suffix t) \<le> length t"
proof -
  from stripSuffix_take obtain k where "stripSuffix suffix t = take k t" by blast
  then show ?thesis by simp
qed

lemma stripSuffix_shorter: "stripSuffix suffix t \<noteq> t \<Longrightarrow> length (stripSuffix suffix t) < length t"
proof -
  assume ne: "stripSuffix suffix t \<noteq> t"
  from stripSuffix_take obtain k where k: "stripSuffix suffix t = take k t" by blast
  with ne have "k < length t" by (cases "k < length t") simp_all
  with k show ?thesis by simp
qed

lemma endsWithUnit_shorter:
  assumes "endsWithUnit y"
  shows "length (stripUnits y) < length y"
proof -
  let ?a = "stripSuffix ''DISTRICT'' y"
  let ?b = "stripSuffix ''TALUK'' ?a"
  let ?c = "stripSuffix ''TALUKA'' ?b"
  let ?d = "stripSuffix ''TEHSIL'' ?c"
  have le: "length ?a \<le> length y" "length ?b \<le> length ?a" "length ?c \<le> length ?b"
    "length ?d \<le> length ?c"
    by (rule stripSuffix_length)+
  have "?a \<noteq> y \<or> ?b \<noteq> ?a \<or> ?c \<noteq> ?b \<or> ?d \<noteq> ?c"
  proof (rule ccontr)
    assume "\<not> (?a \<noteq> y \<or> ?b \<noteq> ?a \<or> ?c \<noteq> ?b \<or> ?d \<noteq> ?c)"
    then have a: "?a = y" and b: "?b = ?a" and c: "?c = ?b" and d: "?d = ?c" by blast+
    have s2: "stripSuffix ''TALUK'' y = y" using b unfolding a .
    have s3: "stripSuffix ''TALUKA'' y = y" using c unfolding a s2 .
    have s4: "stripSuffix ''TEHSIL'' y = y" using d unfolding a s2 s3 .
    from assms a s2 s3 s4 show False by (simp add: endsWithUnit_def)
  qed
  then have "length ?a < length y \<or> length ?b < length ?a \<or> length ?c < length ?b
             \<or> length ?d < length ?c"
    using stripSuffix_shorter by blast
  with le have "length ?d < length y" by linarith
  then show ?thesis by (simp add: stripUnits_def)
qed

lemma map_values_fixed:
  "list_all (\<lambda>(k, v). v \<noteq> [] \<and> normalizeDistrictName (Some v) = Some v) MAHARASHTRA_DISTRICT_MAP"
  by code_simp

lemma map_hit_fixed:
  assumes "map_of MAHARASHTRA_DISTRICT_MAP z = Some v"
  shows "v \<noteq> [] \<and> normalizeDistrictName (Some v) = Some v"
proof -
  from assms have "(z, v) \<in> set MAHARASHTRA_DISTRICT_MAP" by (rule map_of_SomeD)
  with map_values_fixed show ?thesis by (auto simp: list_all_iff)
qed

lemma map_values_plain:
  "list_all (\<lambda>(k, v). \<not> endsWithUnit v) MAHARASHTRA_DISTRICT_MAP"
  by code_simp

lemma map_hit_plain:
  assumes "map_of MAHARASHTRA_DISTRICT_MAP z = Some v"
  shows "\<not> endsWithUnit v"
proof -
  from assms have "(z, v) \<in> set MAHARASHTRA_DISTRICT_MAP" by (rule map_of_SomeD)
  with map_values_plain show ?thesis by (auto simp: list_all_iff)
qed

lemma lookupDistrict_cases:
  "lookupDistrict w = w \<or> (\<exists>v. map_of MAHARASHTRA_DISTRICT_MAP w = Some v \<and> lookupDistrict w = v)"
  by (auto simp: lookupDistrict_def split: option.splits)

subsection \<open>Idempotence of the normalisation\<close>

text \<open>
  Claim C7, as amended. Let \<open>y\<close> be the result of \<open>normalizeDistrictName\<close> on a string.
  A second application returns \<open>y\<close> again exactly when \<open>y\<close> is not empty and none of the
  four \<open>replace\<close> calls would still change it, that is, when \<open>y\<close> does not end in white
  space followed by DISTRICT, TALUK, TALUKA or TEHSIL.
\<close>

theorem normalize_idempotent_on_plain_results:
  assumes "normalizeDistrictName (Some x) = Some y"
  shows "normalizeDistrictName (Some y) = Some y \<longleftrightarrow> y \<noteq> [] \<and> \<not> endsWithUnit y"
proof -
  let ?z = "stripUnits (toUpperCase (trim x))"
  from assms have y: "y = lookupDistrict ?z"
    by (auto simp: normalizeDistrictName_def split: if_splits)
  show ?thesis
  proof (cases "map_of MAHARASHTRA_DISTRICT_MAP ?z")
    case (Some v)
    from map_hit_fixed[OF Some] have "v \<noteq> []" "normalizeDistrictName (Some v) = Some v" by simp_all
    moreover from Some \<open>v \<noteq> []\<close> have "y = v" by (simp add: y lookupDistrict_def)
    moreover have "\<not> endsWithUnit v" using Some by (rule map_hit_plain)
    ultimately show ?thesis by simp
  next
    case None
    then have yz: "y = ?z" by (simp add: y lookupDistrict_def)
    have up: "toUpperCase y = y"
      unfolding yz by (intro stripUnits_upper toUpperCase_idem)
    have "trim (toUpperCase (trim x)) = toUpperCase (trim x)"
      by (simp add: trim_toUpperCase trim_idem)
    then have tr: "trim y = y" unfolding yz by (rule stripUnits_trimmed)
    have lk: "lookupDistrict y = y" using None by (simp add: yz lookupDistrict_def)
    have again: "normalizeDistrictName (Some y) = Some (lookupDistrict (stripUnits y))" if "y \<noteq> []"
      using that by (simp add: normalizeDistrictName_def tr up)
    show ?thesis
    proof (cases "y = []")
      case True
      then show ?thesis by (simp add: normalizeDistrictName_def)
    next
      case ne: False
      show ?thesis
      proof (cases "endsWithUnit y")
        case False
        then have "stripUnits y = y" by (rule not_endsWithUnit)
        with again[OF ne] lk ne False show ?thesis by simp
      next
        case True
        let ?w = "stripUnits y"
        from endsWithUnit_shorter[OF True] have short: "length ?w < length y" .
        have "lookupDistrict ?w \<noteq> y"
          using lookupDistrict_cases[of ?w]
        proof
          assume "lookupDistrict ?w = ?w"
          with short show ?thesis by auto
        next
          assume "\<exists>v. map_of MAHARASHTRA_DISTRICT_MAP ?w = Some v \<and> lookupDistrict ?w = v"
          then obtain v where v: "map_of MAHARASHTRA_DISTRICT_MAP ?w = Some v"
            and l: "lookupDistrict ?w = v" by blast
          from map_hit_plain[OF v] True have "v \<noteq> y" by auto
          with l show ?thesis by simp
        qed
        with again[OF ne] True show ?thesis by simp
      qed
    qed
  qed
qed

theorem normalize_idempotent_witness:
  "normalizeDistrictName (Some '' Satara  District '') = Some ''SATARA''
   \<and> ''SATARA'' \<noteq> []
   \<and> \<not> endsWithUnit ''SATARA''
   \<and> normalizeDistrictName (Some ''SATARA'') = Some ''SATARA''"
proof -
  have a: "normalizeDistrictName (Some '' Satara  District '') = Some ''SATARA''"
    by code_simp
  have b: "''SATARA'' \<noteq> []" by simp
  have c: "\<not> endsWithUnit ''SATARA''" by code_simp
  show ?thesis
    using a b c normalize_idempotent_on_plain_results[OF a] by simp
qed

text \<open>
  The claim as written fails: a name with two suffixes loses one of them at each
  application, and a blank name becomes the empty string, which the next application turns
  into \<open>null\<close>.
\<close>

theorem normalize_not_idempotent_counterexample:
  "normalizeDistrictName (Some ''Pune District Taluka'') = Some ''PUNE DISTRICT''
   \<and> normalizeDistrictName (Some ''PUNE DISTRICT'') = Some ''PUNE''
   \<and> normalizeDistrictName (Some '' '') = Some []
   \<and> normalizeDistrictName (Some []) = None"
  by code_simp

subsection \<open>The chain, block by block\<close>

lemma adapters_configured:
  "isConfigured e Google \<Longrightarrow>
     reverseGeocodeGoogle e lat lon reqs = (adapterResult e lat lon Google, reqs @ [Google])"
  "isConfigured e MapmyIndia \<Longrightarrow>
     reverseGeocodeMapMyIndia e lat lon reqs = (adapterResult e lat lon MapmyIndia, reqs @ [MapmyIndia])"
  "isConfigured e Geoapify \<Longrightarrow>
     reverseGeocodeGeoapify e lat lon reqs = (adapterResult e lat lon Geoapify, reqs @ [Geoapify])"
  "isConfigured e LocationIQ \<Longrightarrow>
     reverseGeocodeLocationIQ e lat lon reqs = (adapterResult e lat lon LocationIQ, reqs @ [LocationIQ])"
  by (auto simp: isConfigured_def adapterResult_def keyConfigured_def reverseGeocodeGoogle_def
      reverseGeocodeMapMyIndia_def reverseGeocodeGeoapify_def reverseGeocodeLocationIQ_def
      split: response.splits)

lemma attempt_block:
  "attempt (keyConfigured (GOOGLE_API_KEY e) ''YOUR_GOOGLE_API_KEY_HERE'')
     (reverseGeocodeGoogle e lat lon) ''Google'' st = block e lat lon Google st"
  "attempt (keyConfigured (MAPMYINDIA_API_KEY e) ''YOUR_MAPMYINDIA_API_KEY_HERE'')
     (reverseGeocodeMapMyIndia e lat lon) ''MapmyIndia'' st = block e lat lon MapmyIndia st"
  "attempt (keyConfigured (GEOAPIFY_API_KEY e) ''YOUR_GEOAPIFY_API_KEY_HERE'')
     (reverseGeocodeGeoapify e lat lon) ''Geoapify'' st = block e lat lon Geoapify st"
  "attempt (keyConfigured (LOCATIONIQ_API_KEY e) ''YOUR_LOCATIONIQ_API_KEY_HERE'')
     (reverseGeocodeLocationIQ e lat lon) ''LocationIQ'' st = block e lat lon LocationIQ st"
proof -
  have g: "isConfigured e Google = keyConfigured (GOOGLE_API_KEY e) ''YOUR_GOOGLE_API_KEY_HERE''"
    and m: "isConfigured e MapmyIndia = keyConfigured (MAPMYINDIA_API_KEY e) ''YOUR_MAPMYINDIA_API_KEY_HERE''"
    and a: "isConfigured e Geoapify = keyConfigured (GEOAPIFY_API_KEY e) ''YOUR_GEOAPIFY_API_KEY_HERE''"
    and l: "isConfigured e LocationIQ = keyConfigured (LOCATIONIQ_API_KEY e) ''YOUR_LOCATIONIQ_API_KEY_HERE''"
    by (simp_all add: isConfigured_def)
  show "attempt (keyConfigured (GOOGLE_API_KEY e) ''YOUR_GOOGLE_API_KEY_HERE'')
     (reverseGeocodeGoogle e lat lon) ''Google'' st = block e lat lon Google st"
    using adapters_configured(1)[of e lat lon "snd st"] g
    by (cases st) (auto simp: attempt_def block_def sufficient_def failureOf_def split: sum.splits)
  show "attempt (keyConfigured (MAPMYINDIA_API_KEY e) ''YOUR_MAPMYINDIA_API_KEY_HERE'')
     (reverseGeocodeMapMyIndia e lat lon) ''MapmyIndia'' st = block e lat lon MapmyIndia st"
    using adapters_configured(2)[of e lat lon "snd st"] m
    by (cases st) (auto simp: attempt_def block_def sufficient_def failureOf_def split: sum.splits)
  show "attempt (keyConfigured (GEOAPIFY_API_KEY e) ''YOUR_GEOAPIFY_API_KEY_HERE'')
     (reverseGeocodeGeoapify e lat lon) ''Geoapify'' st = block e lat lon Geoapify st"
    using adapters_configured(3)[of e lat lon "snd st"] a
    by (cases st) (auto simp: attempt_def block_def sufficient_def failureOf_def split: sum.splits)
  show "attempt (keyConfigured (LOCATIONIQ_API_KEY e) ''YOUR_LOCATIONIQ_API_KEY_HERE'')
     (reverseGeocodeLocationIQ e lat lon) ''LocationIQ'' st = block e lat lon LocationIQ st"
    using adapters_configured(4)[of e lat lon "snd st"] l
    by (cases st) (auto simp: attempt_def block_def sufficient_def failureOf_def split: sum.splits)
qed

lemma getLiveDistrict_blocks:
  "getLiveDistrict e lat lon =
     (case block e lat lon Google ([], []) of
        (Some result, errs, reqs) \<Rightarrow> \<lparr>returned = Inr result, errors = errs, requests = reqs\<rparr>
      | (None, st1) \<Rightarrow>
     (case block e lat lon MapmyIndia st1 of
        (Some result, errs, reqs) \<Rightarrow> \<lparr>returned = Inr result, errors = errs, requests = reqs\<rparr>
      | (None, st2) \<Rightarrow>
     (case block e lat lon Geoapify st2 of
        (Some result, errs, reqs) \<Rightarrow> \<lparr>returned = Inr result, errors = errs, requests = reqs\<rparr>
      | (None, st3) \<Rightarrow>
     (case block e lat lon LocationIQ st3 of
        (Some result, errs, reqs) \<Rightarrow> \<lparr>returned = Inr result, errors = errs, requests = reqs\<rparr>
      | (None, errs, reqs) \<Rightarrow>
          \<lparr>returned = Inl (Error ''District detection unavailable. All geocoding APIs failed.''),
           errors = errs, requests = reqs\<rparr>))))"
  unfolding getLiveDistrict_def attempt_block ..

lemma block_skip:
  "\<not> (isConfigured e p \<and> sufficient (adapterResult e lat lon p)) \<Longrightarrow>
   block e lat lon p st =
     (None, fst st @ (if isConfigured e p then failureOf e lat lon p else []),
      snd st @ (if isConfigured e p then [p] else []))"
  by (auto simp: block_def failureOf_def sufficient_def split: sum.splits)

lemma block_hit:
  "isConfigured e p \<Longrightarrow> adapterResult e lat lon p = Inr loc \<Longrightarrow> sufficient (Inr loc) \<Longrightarrow>
   block e lat lon p st = (Some loc, fst st, snd st @ [p])"
  by (simp add: block_def)

lemma example_env_conf:
  "\<not> isConfigured example_env Google" "isConfigured example_env MapmyIndia"
  "isConfigured example_env Geoapify" "isConfigured example_env LocationIQ"
  by code_simp+

lemma example_env_results:
  "adapterResult example_env (1987 / 100) (7533 / 100) MapmyIndia = Inl (Error ''timeout of 5000ms exceeded'')"
  "adapterResult example_env (1987 / 100) (7533 / 100) Geoapify = Inr example_location"
  by code_simp+

subsection \<open>The first sufficient provider\<close>

text \<open>
  Claim C1, as amended. Let \<open>p\<close> be a configured provider whose adapter returns a location
  with a state and a district that are both present and not empty, and let no provider
  before \<open>p\<close> in the order Google, MapmyIndia, Geoapify, LocationIQ be configured and return
  such a location. Then \<open>getLiveDistrict\<close> returns the location of \<open>p\<close>, and the requests
  it issues are those to the configured providers up to and including \<open>p\<close>: no provider
  after \<open>p\<close> is consulted.
\<close>

theorem first_sufficient_provider:
  assumes conf: "isConfigured e p"
    and res: "adapterResult e lat lon p = Inr loc"
    and suff: "truthy (location.state loc) \<and> truthy (location.district loc)"
    and earlier: "\<forall>q. priority q < priority p \<longrightarrow>
                   \<not> (isConfigured e q \<and> sufficient (adapterResult e lat lon q))"
  shows "returned (getLiveDistrict e lat lon) = Inr loc
       \<and> requests (getLiveDistrict e lat lon)
           = filter (isConfigured e) (filter (\<lambda>q. priority q \<le> priority p) chain)"
proof -
  have s: "sufficient (Inr loc)" using suff by (simp add: sufficient_def)
  note hit = block_hit[OF conf res s]
  show ?thesis
  proof (cases p)
    case Google
    with hit conf show ?thesis
      by (simp add: getLiveDistrict_blocks chain_def)
  next
    case MapmyIndia
    with earlier have "\<not> (isConfigured e Google \<and> sufficient (adapterResult e lat lon Google))"
      by simp
    note sk = block_skip[OF this]
    from MapmyIndia hit conf show ?thesis
      by (simp add: getLiveDistrict_blocks chain_def sk)
  next
    case Geoapify
    with earlier have "\<not> (isConfigured e Google \<and> sufficient (adapterResult e lat lon Google))"
      "\<not> (isConfigured e MapmyIndia \<and> sufficient (adapterResult e lat lon MapmyIndia))"
      by simp_all
    note sk = block_skip[OF this(1)] block_skip[OF this(2)]
    from Geoapify hit conf show ?thesis
      by (simp add: getLiveDistrict_blocks chain_def sk)
  next
    case LocationIQ
    with earlier have "\<not> (isConfigured e Google \<and> sufficient (adapterResult e lat lon Google))"
      "\<not> (isConfigured e MapmyIndia \<and> sufficient (adapterResult e lat lon MapmyIndia))"
      "\<not> (isConfigured e Geoapify \<and> sufficient (adapterResult e lat lon Geoapify))"
      by simp_all
    note sk = block_skip[OF this(1)] block_skip[OF this(2)] block_skip[OF this(3)]
    from LocationIQ hit conf show ?thesis
      by (simp add: getLiveDistrict_blocks chain_def sk)
  qed
qed

theorem first_sufficient_provider_witness:
  "isConfigured example_env Geoapify
   \<and> adapterResult example_env (1987 / 100) (7533 / 100) Geoapify = Inr example_location
   \<and> truthy (location.state example_location) \<and> truthy (location.district example_location)
   \<and> \<not> isConfigured example_env Google
   \<and> \<not> sufficient (adapterResult example_env (1987 / 100) (7533 / 100) MapmyIndia)
   \<and> returned (getLiveDistrict example_env (1987 / 100) (7533 / 100)) = Inr example_location
   \<and> requests (getLiveDistrict example_env (1987 / 100) (7533 / 100)) = [MapmyIndia, Geoapify]"
proof -
  have suff: "truthy (location.state example_location) \<and> truthy (location.district example_location)"
    by code_simp
  have mm: "\<not> sufficient (adapterResult example_env (1987 / 100) (7533 / 100) MapmyIndia)"
    by (simp add: example_env_results sufficient_def)
  have earlier: "\<forall>q. priority q < priority Geoapify \<longrightarrow>
      \<not> (isConfigured example_env q \<and> sufficient (adapterResult example_env (1987 / 100) (7533 / 100) q))"
  proof (intro allI impI)
    fix q assume "priority q < priority Geoapify"
    then show "\<not> (isConfigured example_env q
                  \<and> sufficient (adapterResult example_env (1987 / 100) (7533 / 100) q))"
      using mm example_env_conf(1) by (cases q) simp_all
  qed
  have flt: "filter (isConfigured example_env) (filter (\<lambda>q. priority q \<le> priority Geoapify) chain)
               = [MapmyIndia, Geoapify]"
    by (simp add: chain_def example_env_conf)
  show ?thesis
    using first_sufficient_provider[OF example_env_conf(3) example_env_results(2) suff earlier]
      suff mm example_env_conf example_env_results(2) flt
    by simp
qed

text \<open>
  The claim as written fails: for a blank district in Maharashtra the MapmyIndia adapter
  returns a location whose state and district are both not \<open>null\<close>, the district being
  the empty string; \<open>getLiveDistrict\<close> passes it over and goes on to Geoapify.
\<close>

theorem first_sufficient_provider_counterexample:
  "\<not> isConfigured blank_env Google
   \<and> isConfigured blank_env MapmyIndia
   \<and> adapterResult blank_env (1987 / 100) (7533 / 100) MapmyIndia = Inr blank_location
   \<and> location.state blank_location \<noteq> None
   \<and> location.district blank_location \<noteq> None
   \<and> returned (getLiveDistrict blank_env (1987 / 100) (7533 / 100)) \<noteq> Inr blank_location
   \<and> requests (getLiveDistrict blank_env (1987 / 100) (7533 / 100)) = [MapmyIndia, Geoapify]"
  by code_simp

subsection \<open>Every provider failing\<close>

text \<open>
  Claim C8, as amended. When no configured provider returns a location with a state and a
  district, \<open>getLiveDistrict\<close> throws an \<open>Error\<close> that carries the fixed message and nothing
  else. The array \<open>errors\<close>, which is written to the console only, holds in priority order
  one entry, the provider's name and the message, for each configured provider whose adapter
  threw; one request went to each configured provider.
\<close>

theorem all_providers_failed:
  assumes "\<forall>p. \<not> (isConfigured e p \<and> sufficient (adapterResult e lat lon p))"
  shows "returned (getLiveDistrict e lat lon)
           = Inl (Error ''District detection unavailable. All geocoding APIs failed.'')
       \<and> errors (getLiveDistrict e lat lon)
           = concat (map (failureOf e lat lon) (filter (isConfigured e) chain))
       \<and> requests (getLiveDistrict e lat lon) = filter (isConfigured e) chain"
proof -
  note sk = block_skip[OF assms[rule_format, of Google]] block_skip[OF assms[rule_format, of MapmyIndia]]
    block_skip[OF assms[rule_format, of Geoapify]] block_skip[OF assms[rule_format, of LocationIQ]]
  show ?thesis
    by (simp add: getLiveDistrict_blocks chain_def sk)
qed

theorem all_providers_failed_witness:
  "\<not> (isConfigured failing_env Google \<and> sufficient (adapterResult failing_env 19 75 Google))
   \<and> \<not> (isConfigured failing_env MapmyIndia \<and> sufficient (adapterResult failing_env 19 75 MapmyIndia))
   \<and> \<not> (isConfigured failing_env Geoapify \<and> sufficient (adapterResult failing_env 19 75 Geoapify))
   \<and> \<not> (isConfigured failing_env LocationIQ \<and> sufficient (adapterResult failing_env 19 75 LocationIQ))
   \<and> returned (getLiveDistrict failing_env 19 75)
        = Inl (Error ''District detection unavailable. All geocoding APIs failed.'')
   \<and> errors (getLiveDistrict failing_env 19 75)
        = [\<lparr>api = ''Geoapify'', error = ''timeout of 5000ms exceeded''\<rparr>,
           \<lparr>api = ''LocationIQ'', error = cannotRead ''address''\<rparr>]
   \<and> requests (getLiveDistrict failing_env 19 75) = [MapmyIndia, Geoapify, LocationIQ]"
proof -
  have each:
    "\<not> (isConfigured failing_env Google \<and> sufficient (adapterResult failing_env 19 75 Google))"
    "\<not> (isConfigured failing_env MapmyIndia \<and> sufficient (adapterResult failing_env 19 75 MapmyIndia))"
    "\<not> (isConfigured failing_env Geoapify \<and> sufficient (adapterResult failing_env 19 75 Geoapify))"
    "\<not> (isConfigured failing_env LocationIQ \<and> sufficient (adapterResult failing_env 19 75 LocationIQ))"
    by code_simp+
  have all: "\<forall>p. \<not> (isConfigured failing_env p \<and> sufficient (adapterResult failing_env 19 75 p))"
  proof
    fix p show "\<not> (isConfigured failing_env p \<and> sufficient (adapterResult failing_env 19 75 p))"
      using each by (cases p) simp_all
  qed
  have conf: "filter (isConfigured failing_env) chain = [MapmyIndia, Geoapify, LocationIQ]"
    by code_simp
  have fl: "failureOf failing_env 19 75 MapmyIndia = []"
    "failureOf failing_env 19 75 Geoapify = [\<lparr>api = ''Geoapify'', error = ''timeout of 5000ms exceeded''\<rparr>]"
    "failureOf failing_env 19 75 LocationIQ = [\<lparr>api = ''LocationIQ'', error = cannotRead ''address''\<rparr>]"
    by code_simp+
  show ?thesis
    using all_providers_failed[OF all] each
    by (simp add: conf fl)
qed

text \<open>
  The claim as written fails: the error thrown holds the message only, and MapmyIndia, whose
  request succeeded but whose answer has no state, has no entry in \<open>errors\<close>.
\<close>

theorem all_providers_failed_counterexample:
  "isConfigured failing_env MapmyIndia
   \<and> requests (getLiveDistrict failing_env 19 75) = [MapmyIndia, Geoapify, LocationIQ]
   \<and> returned (getLiveDistrict failing_env 19 75)
        = Inl (Error ''District detection unavailable. All geocoding APIs failed.'')
   \<and> map api (errors (getLiveDistrict failing_env 19 75)) = [''Geoapify'', ''LocationIQ'']"
  by code_simp

subsection \<open>When the district is normalised\<close>

lemma normalize_None: "normalizeDistrictName None = None"
  by (simp add: normalizeDistrictName_def)

lemma orElse_None: "orElse a None = None \<or> truthy (orElse a None)"
  by (simp add: orElse_def)

lemma mapmyDistrict_shape: "mapmyDistrict res = None \<or> truthy (mapmyDistrict res)"
  unfolding mapmyDistrict_def by (rule orElse_None)

lemma geoapifyDistrict_shape: "geoapifyDistrict res = None \<or> truthy (geoapifyDistrict res)"
  unfolding geoapifyDistrict_def by (rule orElse_None)

lemma locationiqDistrict_shape: "locationiqDistrict a = None \<or> truthy (locationiqDistrict a)"
  by (simp add: locationiqDistrict_def)

lemma normalized_branch_eq:
  "d = None \<or> truthy d \<Longrightarrow>
   (if st = Some ''Maharashtra'' \<and> truthy d then normalizeDistrictName d else d)
     = (if st = Some ''Maharashtra'' then normalizeDistrictName d else d)"
  by (auto simp: normalize_None)

text \<open>
  Claim C6, as amended. For MapmyIndia, Geoapify and LocationIQ the state of the returned
  location is the extracted state, and its district is \<open>normalizeDistrictName\<close> of the
  extracted district when the extracted state is exactly the string \<open>Maharashtra\<close>
  (compared case-sensitively) and the extracted district itself, unmodified, for every
  other state.
\<close>

theorem normalized_iff_maharashtra:
  assumes "p \<noteq> Google" and "adapterResult e lat lon p = Inr loc"
  shows "\<exists>st di. extraction e lat lon p = Some (st, di)
           \<and> location.state loc = st
           \<and> location.district loc
               = (if st = Some ''Maharashtra'' then normalizeDistrictName di else di)"
proof (cases p)
  case Google
  with assms show ?thesis by simp
next
  case MapmyIndia
  with assms(2) show ?thesis
    by (auto simp: adapterResult_def reverseGeocodeMapMyIndia_def mapmyLocation_def extraction_def
        Let_def normalized_branch_eq[OF mapmyDistrict_shape]
        split: if_splits response.splits option.splits list.splits)
next
  case Geoapify
  with assms(2) show ?thesis
    by (auto simp: adapterResult_def reverseGeocodeGeoapify_def geoapifyLocation_def extraction_def
        Let_def normalized_branch_eq[OF geoapifyDistrict_shape]
        split: if_splits response.splits option.splits list.splits)
next
  case LocationIQ
  with assms(2) show ?thesis
    by (auto simp: adapterResult_def reverseGeocodeLocationIQ_def locationiqLocation_def extraction_def
        Let_def normalized_branch_eq[OF locationiqDistrict_shape]
        split: if_splits response.splits option.splits list.splits)
qed

theorem normalized_iff_maharashtra_witness:
  "Geoapify \<noteq> Google
   \<and> adapterResult example_env (1987 / 100) (7533 / 100) Geoapify = Inr example_location
   \<and> extraction example_env (1987 / 100) (7533 / 100) Geoapify = Some (Some ''Maharashtra'', Some ''Aurangabad'')
   \<and> location.district example_location = normalizeDistrictName (Some ''Aurangabad'')"
proof -
  have ne: "Geoapify \<noteq> Google" by simp
  have ex: "extraction example_env (1987 / 100) (7533 / 100) Geoapify
              = Some (Some ''Maharashtra'', Some ''Aurangabad'')"
    by code_simp
  show ?thesis
    using normalized_iff_maharashtra[OF ne example_env_results(2)] ne example_env_results(2) ex
    by simp
qed

text \<open>
  The claim as written fails twice: MapmyIndia's district is left as it is for the state
  \<open>maharashtra\<close>, which equals the region name up to case; and the Google adapter
  normalises the district of a location in Karnataka.
\<close>

theorem normalized_iff_maharashtra_counterexample:
  "extraction case_env 19 75 MapmyIndia = Some (Some ''maharashtra'', Some ''Aurangabad'')
   \<and> toLowerCase ''maharashtra'' = toLowerCase ''Maharashtra''
   \<and> adapterResult case_env 19 75 MapmyIndia = Inr case_location_mapmy
   \<and> location.district case_location_mapmy = Some ''Aurangabad''
   \<and> normalizeDistrictName (Some ''Aurangabad'') = Some ''CHATRAPATI SAMBHAJI NAGAR''
   \<and> extraction case_env 19 75 Google = Some (Some ''Karnataka'', Some ''Pune District'')
   \<and> adapterResult case_env 19 75 Google = Inr case_location_google
   \<and> location.district case_location_google = Some ''PUNE''"
  by code_simp

end
